theory Spec2Isabelle
  imports Main "HOL-Library.Sublist"
begin

section \<open>Text\<close>

text \<open>
  A Python \<open>str\<close> is modelled as a \<open>string\<close>, the UTF-8 bytes of the text. A byte
  below 128 is the ASCII character of that code, and the character classes, the case
  mappings and the white space of this section are Python's on ASCII characters. A
  byte from 128 on belongs to a character beyond ASCII: the model copies it, compares
  it and takes it for neither a letter, a digit nor white space, which is not what
  Python does for every such character. So a statement about an arbitrary line
  asks that the characters whose class decides it are ASCII (\<open>ascii_char\<close>); the other
  characters of the line are free.
\<close>

definition ascii_char :: "char \<Rightarrow> bool" where
  "ascii_char c = (\<not> digit7 c)"

definition upper_letters :: string where
  "upper_letters = ''ABCDEFGHIJKLMNOPQRSTUVWXYZ''"

definition lower_letters :: string where
  "lower_letters = ''abcdefghijklmnopqrstuvwxyz''"

text \<open>\<open>str.isspace\<close> and the class \<open>\s\<close>: tab, line feed, vertical tab, form feed,
  carriage return, the four separators 0x1C to 0x1F, and the space.\<close>

definition is_space :: "char \<Rightarrow> bool" where
  "is_space c = (c \<in> set [CHR 0x09, CHR 0x0A, CHR 0x0B, CHR 0x0C, CHR 0x0D,
                            CHR 0x1C, CHR 0x1D, CHR 0x1E, CHR 0x1F, CHR 0x20])"

definition is_upper :: "char \<Rightarrow> bool" where
  "is_upper c = (c \<in> set upper_letters)"

definition is_lower :: "char \<Rightarrow> bool" where
  "is_lower c = (c \<in> set lower_letters)"

definition is_alpha :: "char \<Rightarrow> bool" where
  "is_alpha c = (is_upper c \<or> is_lower c)"

definition is_digit :: "char \<Rightarrow> bool" where
  "is_digit c = (c \<in> set ''0123456789'')"

text \<open>The class \<open>\w\<close>.\<close>

definition is_word :: "char \<Rightarrow> bool" where
  "is_word c = (is_alpha c \<or> is_digit c \<or> c = CHR ''_'')"

definition lower_char :: "char \<Rightarrow> char" where
  "lower_char c = (case map_of (zip upper_letters lower_letters) c of Some l \<Rightarrow> l | None \<Rightarrow> c)"

definition upper_char :: "char \<Rightarrow> char" where
  "upper_char c = (case map_of (zip lower_letters upper_letters) c of Some u \<Rightarrow> u | None \<Rightarrow> c)"

text \<open>\<open>str.lower\<close>, \<open>str.strip\<close>, \<open>str.rstrip(chars)\<close>, \<open>str.replace\<close> of one character
  by another, \<open>x in s\<close> on strings.\<close>

definition lower :: "string \<Rightarrow> string" where
  "lower s = map lower_char s"

definition rstrip :: "string \<Rightarrow> string" where
  "rstrip s = rev (dropWhile is_space (rev s))"

definition strip :: "string \<Rightarrow> string" where
  "strip s = rstrip (dropWhile is_space s)"

definition rstrip_chars :: "string \<Rightarrow> string \<Rightarrow> string" where
  "rstrip_chars cs s = rev (dropWhile (\<lambda>c. c \<in> set cs) (rev s))"

definition replace_char :: "char \<Rightarrow> char \<Rightarrow> string \<Rightarrow> string" where
  "replace_char a b s = map (\<lambda>c. if c = a then b else c) s"

fun contains :: "string \<Rightarrow> string \<Rightarrow> bool" where
  "contains x [] = (x = [])"
| "contains x (c # cs) = (prefix x (c # cs) \<or> contains x cs)"

text \<open>\<open>str.title\<close>: a letter is upper-cased when the character before it is not a
  letter and lower-cased otherwise. \<open>str.capitalize\<close>: the first character upper-cased,
  the rest lower-cased.\<close>

fun title_from :: "bool \<Rightarrow> string \<Rightarrow> string" where
  "title_from prev [] = []"
| "title_from prev (c # cs) =
     (if is_alpha c then (if prev then lower_char c else upper_char c) # title_from True cs
      else c # title_from False cs)"

definition title :: "string \<Rightarrow> string" where
  "title s = title_from False s"

definition capitalize :: "string \<Rightarrow> string" where
  "capitalize s = (case s of [] \<Rightarrow> [] | c # cs \<Rightarrow> upper_char c # lower cs)"

text \<open>\<open>str.split()\<close> with no argument: the maximal runs of characters that are not
  white space.\<close>

fun split_from :: "string \<Rightarrow> string \<Rightarrow> string list" where
  "split_from cur [] = (if cur = [] then [] else [cur])"
| "split_from cur (c # cs) =
     (if is_space c then (if cur = [] then split_from [] cs else cur # split_from [] cs)
      else split_from (cur @ [c]) cs)"

definition split :: "string \<Rightarrow> string list" where
  "split s = split_from [] s"

text \<open>The UTF-8 bytes of a code point.\<close>

definition cont_byte :: "nat \<Rightarrow> char" where
  "cont_byte n = char_of (128 + n mod 64)"

definition utf8 :: "nat \<Rightarrow> string" where
  "utf8 n =
     (if n < 128 then [char_of n]
      else if n < 2048 then [char_of (192 + n div 64), cont_byte n]
      else if n < 65536 then [char_of (224 + n div 4096), cont_byte (n div 64), cont_byte n]
      else [char_of (240 + n div 262144), cont_byte (n div 4096), cont_byte (n div 64),
            cont_byte n])"

section \<open>JSON values and Python dictionaries\<close>

text \<open>
  What \<open>json.load\<close> returns and \<open>json.dump\<close> accepts. A mapping is an association list
  in insertion order. Of a float the program observes its truth value and its printed
  form only, which are what \<open>JFloat\<close> carries.
\<close>

datatype json =
    JNull
  | JBool bool
  | JInt int
  | JFloat bool string
  | JStr string
  | JList "json list"
  | JDict "(string \<times> json) list"

type_synonym 'v dict = "(string \<times> 'v) list"

text \<open>\<open>d[k] = v\<close>: the value of a key that is present is replaced in place, a new key
  goes to the end.\<close>

fun dict_set :: "'v dict \<Rightarrow> string \<Rightarrow> 'v \<Rightarrow> 'v dict" where
  "dict_set [] k v = [(k, v)]"
| "dict_set ((k', v') # d) k v = (if k' = k then (k, v) # d else (k', v') # dict_set d k v)"

definition dict_get :: "'v dict \<Rightarrow> string \<Rightarrow> 'v option" where
  "dict_get d k = map_of d k"

definition dict_keys :: "'v dict \<Rightarrow> string list" where
  "dict_keys d = map fst d"

text \<open>\<open>d.update(e)\<close>.\<close>

definition dict_update :: "'v dict \<Rightarrow> 'v dict \<Rightarrow> 'v dict" where
  "dict_update d e = foldl (\<lambda>acc (k, v). dict_set acc k v) d e"

text \<open>The truth value of a value, as \<open>if v:\<close> tests it.\<close>

fun truthy :: "json \<Rightarrow> bool" where
  "truthy JNull = False"
| "truthy (JBool b) = b"
| "truthy (JInt i) = (i \<noteq> 0)"
| "truthy (JFloat nz r) = nz"
| "truthy (JStr s) = (s \<noteq> [])"
| "truthy (JList xs) = (xs \<noteq> [])"
| "truthy (JDict d) = (d \<noteq> [])"

text \<open>\<open>isinstance(x, type(y))\<close>. \<open>bool\<close> is a subclass of \<open>int\<close>.\<close>

fun isinstance_of :: "json \<Rightarrow> json \<Rightarrow> bool" where
  "isinstance_of JNull JNull = True"
| "isinstance_of (JBool a) (JBool b) = True"
| "isinstance_of (JBool a) (JInt j) = True"
| "isinstance_of (JInt i) (JInt j) = True"
| "isinstance_of (JFloat a r) (JFloat b q) = True"
| "isinstance_of (JStr s) (JStr t) = True"
| "isinstance_of (JList xs) (JList ys) = True"
| "isinstance_of (JDict d) (JDict e) = True"
| "isinstance_of x y = False"

section \<open>The memory store\<close>

text \<open>
  \<open>self.data\<close> is a dictionary with nine keys that are never removed. The four profile
  keys hold \<open>None\<close> or a string, and the containers keep their kind: the program assigns
  to them in \<open>__init__\<close>, in \<open>reset_memory\<close> and, in \<open>_load_or_init_memory\<close>, only a value
  of the default's own type. The record has one field for each, and \<open>others\<close> for every
  further top-level key, in insertion order; the program stores strings only there.
\<close>

record memory =
  user_name :: "string option"
  country :: "string option"
  city :: "string option"
  language :: "string option"
  facts :: "json dict"
  relationships :: "json dict"
  conversations :: "json list"
  flexipdf_knowledge :: "json dict"
  meta :: "json dict"
  others :: "string dict"

text \<open>One exchange, as \<open>_remember_conversation\<close> builds it.\<close>

record exchange =
  user :: string
  ai :: string
  time :: string

definition entry_json :: "exchange \<Rightarrow> json" where
  "entry_json e = JDict [(''user'', JStr (user e)), (''ai'', JStr (ai e)), (''time'', JStr (time e))]"

text \<open>The default data structure of \<open>__init__\<close>.\<close>

definition default_data :: memory where
  "default_data =
     \<lparr> user_name = None, country = None, city = None, language = None,
       facts = [], relationships = [], conversations = [], flexipdf_knowledge = [],
       meta = [(''created_at'', JNull)], others = [] \<rparr>"

definition schema_keys :: "string list" where
  "schema_keys = [''user_name'', ''country'', ''city'', ''language'', ''facts'',
                  ''relationships'', ''conversations'', ''flexipdf_knowledge'', ''meta'']"

text \<open>The dictionary view of the record: \<open>self.data.keys()\<close> and \<open>self.data[k]\<close>.\<close>

definition data_keys :: "memory \<Rightarrow> string list" where
  "data_keys d = schema_keys @ dict_keys (others d)"

definition opt_json :: "string option \<Rightarrow> json" where
  "opt_json v = (case v of None \<Rightarrow> JNull | Some s \<Rightarrow> JStr s)"

definition data_value :: "memory \<Rightarrow> string \<Rightarrow> json" where
  "data_value d k =
     (if k = ''user_name'' then opt_json (user_name d)
      else if k = ''country'' then opt_json (country d)
      else if k = ''city'' then opt_json (city d)
      else if k = ''language'' then opt_json (language d)
      else if k = ''facts'' then JDict (facts d)
      else if k = ''relationships'' then JDict (relationships d)
      else if k = ''conversations'' then JList (conversations d)
      else if k = ''flexipdf_knowledge'' then JDict (flexipdf_knowledge d)
      else if k = ''meta'' then JDict (meta d)
      else opt_json (dict_get (others d) k))"

definition to_json :: "memory \<Rightarrow> json" where
  "to_json d = JDict (map (\<lambda>k. (k, data_value d k)) (data_keys d))"

text \<open>\<open>self.data[key] = stored\<close> for a string, as the structured extractor does it. Its
  keys are never those of the five containers.\<close>

definition data_store :: "string \<Rightarrow> string \<Rightarrow> memory \<Rightarrow> memory" where
  "data_store k v d =
     (if k = ''user_name'' then d\<lparr>user_name := Some v\<rparr>
      else if k = ''country'' then d\<lparr>country := Some v\<rparr>
      else if k = ''city'' then d\<lparr>city := Some v\<rparr>
      else if k = ''language'' then d\<lparr>language := Some v\<rparr>
      else d\<lparr>others := dict_set (others d) k v\<rparr>)"

text \<open>\<open>self.data.get(key)\<close> for a profile key.\<close>

definition data_scalar :: "memory \<Rightarrow> string \<Rightarrow> string option" where
  "data_scalar d k =
     (if k = ''user_name'' then user_name d
      else if k = ''country'' then country d
      else if k = ''city'' then city d
      else if k = ''language'' then language d
      else dict_get (others d) k)"

text \<open>\<open>self.data[k] = raw[k]\<close> in \<open>_load_or_init_memory\<close>, where the value has the type
  of the one it replaces.\<close>

definition scalar_of :: "json \<Rightarrow> string option" where
  "scalar_of v = (case v of JStr s \<Rightarrow> Some s | _ \<Rightarrow> None)"

definition data_adopt :: "string \<Rightarrow> json \<Rightarrow> memory \<Rightarrow> memory" where
  "data_adopt k v d =
     (if k = ''user_name'' then d\<lparr>user_name := scalar_of v\<rparr>
      else if k = ''country'' then d\<lparr>country := scalar_of v\<rparr>
      else if k = ''city'' then d\<lparr>city := scalar_of v\<rparr>
      else if k = ''language'' then d\<lparr>language := scalar_of v\<rparr>
      else if k = ''facts'' then (case v of JDict f \<Rightarrow> d\<lparr>facts := f\<rparr> | _ \<Rightarrow> d)
      else if k = ''relationships'' then (case v of JDict f \<Rightarrow> d\<lparr>relationships := f\<rparr> | _ \<Rightarrow> d)
      else if k = ''conversations'' then (case v of JList xs \<Rightarrow> d\<lparr>conversations := xs\<rparr> | _ \<Rightarrow> d)
      else if k = ''flexipdf_knowledge'' then
        (case v of JDict f \<Rightarrow> d\<lparr>flexipdf_knowledge := f\<rparr> | _ \<Rightarrow> d)
      else if k = ''meta'' then (case v of JDict f \<Rightarrow> d\<lparr>meta := f\<rparr> | _ \<Rightarrow> d)
      else (case v of JStr s \<Rightarrow> d\<lparr>others := dict_set (others d) k s\<rparr> | _ \<Rightarrow> d))"

section \<open>The chatbot's state\<close>

datatype durable = Missing | Unreadable | Content json

datatype pyerr = AttributeError | KeyError

text \<open>
  An \<open>AliChatbot\<close> and what it acts on. \<open>ctx\<close> is the \<open>deque\<close> \<open>self.context\<close>, \<open>maxlen\<close> its bound
  (\<open>ctx_size\<close>; a negative one makes \<open>deque\<close> raise in \<open>__init__\<close>). \<open>disk\<close> is the file at
  \<open>memory_path\<close>: missing, present and unreadable as JSON, or holding a value. \<open>writable\<close>
  says whether writing the file succeeds; a failed write leaves the file as it was.
  \<open>embedding_model\<close> is the optional similarity search, taken as a function from the
  query and the indexed texts to the texts found; \<open>faiss_index\<close> holds the indexed
  texts. An exception of the external encoder is not modelled.
\<close>

record bot =
  data :: memory
  ctx :: "exchange list"
  maxlen :: nat
  embedding_model :: "(string \<Rightarrow> json list \<Rightarrow> json list) option"
  faiss_index :: "json list option"
  disk :: durable
  writable :: bool

definition save_memory :: "bot \<Rightarrow> bot" where
  "save_memory s = (if writable s then s\<lparr>disk := Content (to_json (data s))\<rparr> else s)"

text \<open>The loop of \<open>_load_or_init_memory\<close> over \<open>self.data.keys()\<close> for a record that is
  a mapping, and the merge of \<open>meta\<close> after it.\<close>

definition is_list :: "json \<Rightarrow> bool" where
  "is_list v = (case v of JList xs \<Rightarrow> True | _ \<Rightarrow> False)"

definition adopt_key :: "json dict \<Rightarrow> memory \<Rightarrow> string \<Rightarrow> memory" where
  "adopt_key raw d k =
     (case dict_get raw k of
        None \<Rightarrow> d
      | Some v \<Rightarrow>
          if isinstance_of v (data_value d k) then data_adopt k v d
          else if k = ''conversations'' \<and> is_list v then data_adopt k v d
          else d)"

definition merge_meta :: "json dict \<Rightarrow> memory \<Rightarrow> memory" where
  "merge_meta raw d =
     (case dict_get raw ''meta'' of
        Some (JDict m) \<Rightarrow> d\<lparr>meta := dict_update (meta d) m\<rparr>
      | _ \<Rightarrow> d)"

definition load_fields :: "json dict \<Rightarrow> memory \<Rightarrow> memory" where
  "load_fields raw d = merge_meta raw (foldl (adopt_key raw) d (data_keys d))"

text \<open>\<open>now\<close> is what \<open>datetime.now()\<close> prints in the format the caller asks for.\<close>

definition load_or_init_memory :: "string \<Rightarrow> bot \<Rightarrow> bot" where
  "load_or_init_memory now s =
     (case disk s of
        Missing \<Rightarrow>
          save_memory (s\<lparr>data := (data s)\<lparr>meta := dict_set (meta (data s)) ''created_at'' (JStr now)\<rparr>\<rparr>)
      | Unreadable \<Rightarrow> save_memory (s\<lparr>data := (data s)\<lparr>conversations := []\<rparr>\<rparr>)
      | Content raw \<Rightarrow>
          (case raw of
             JDict r \<Rightarrow> s\<lparr>data := load_fields r (data s)\<rparr>
           | JList xs \<Rightarrow> s\<lparr>data := (data s)\<lparr>conversations := xs\<rparr>\<rparr>
           | _ \<Rightarrow> s\<lparr>data := (data s)\<lparr>conversations := []\<rparr>\<rparr>))"

text \<open>\<open>[c.get("user", "") for c in conversations if c.get("user")]\<close>: an entry that is
  not a mapping has no \<open>get\<close>.\<close>

fun user_texts :: "json list \<Rightarrow> pyerr + json list" where
  "user_texts [] = Inr []"
| "user_texts (c # cs) =
     (case c of
        JDict d \<Rightarrow>
          (case user_texts cs of
             Inl e \<Rightarrow> Inl e
           | Inr ts \<Rightarrow>
               Inr (case dict_get d ''user'' of
                      Some v \<Rightarrow> if truthy v then v # ts else ts
                    | None \<Rightarrow> ts))
      | _ \<Rightarrow> Inl AttributeError)"

definition build_faiss_index :: "bot \<Rightarrow> pyerr + bot" where
  "build_faiss_index s =
     (if embedding_model s = None then Inr (s\<lparr>faiss_index := None\<rparr>)
      else case user_texts (conversations (data s)) of
             Inl e \<Rightarrow> Inl e
           | Inr texts \<Rightarrow>
               if texts = [] then Inr (s\<lparr>faiss_index := None\<rparr>)
               else Inr (s\<lparr>faiss_index := Some texts\<rparr>))"

text \<open>\<open>reset_memory\<close>. The result is the state it leaves and either the exception it
  raised or the string it returned.\<close>

definition reset_message :: string where
  "reset_message = ''Memory reset '' @ utf8 0x2014 @ '' fresh start '' @ utf8 0x2728"

definition reset_memory :: "string \<Rightarrow> bot \<Rightarrow> bot \<times> (pyerr + string)" where
  "reset_memory now s =
     (let s1 = save_memory
                 (s\<lparr>data := default_data\<lparr>meta := [(''created_at'', JStr now)]\<rparr>, ctx := []\<rparr>)
      in if embedding_model s1 \<noteq> None then
           (case build_faiss_index s1 of
              Inl e \<Rightarrow> (s1, Inl e)
            | Inr s2 \<Rightarrow> (s2, Inr reset_message))
         else (s1, Inr reset_message))"

text \<open>\<open>_seed_flexipdf_knowledge\<close>.\<close>

definition seed_defaults :: "string dict" where
  "seed_defaults =
     [(''pdf_to_word'', ''Convert PDF files into editable Word (.docx) documents.''),
      (''word_to_pdf'', ''Convert Word (.docx) files into clean, printable PDF files.''),
      (''pdf_to_image'', ''Export pages of a PDF into high-quality image files (PNG/JPG).''),
      (''images_to_pdf'', ''Merge multiple images into a single PDF document.''),
      (''merge_pdfs'', ''Combine multiple PDF files into a single PDF.''),
      (''split_pdf'', ''Split a PDF into multiple smaller PDF files by page ranges.''),
      (''compress_pdf'', ''Reduce PDF file size while keeping acceptable quality.''),
      (''ocr_pdf'', ''(If available) Use OCR to recognize text inside scanned PDF pages.''),
      (''ai_assistant'', ''I'' @ utf8 0x2019 @ ''m Ali '' @ utf8 0x2014 @
         '' the built-in AI assistant that helps with FlexiPDF tasks and answers questions.'')]"

definition seed_one :: "json dict \<Rightarrow> string \<times> string \<Rightarrow> json dict" where
  "seed_one kb kv = (if fst kv \<in> set (dict_keys kb) then kb else dict_set kb (fst kv) (JStr (snd kv)))"

definition seed_flexipdf_knowledge :: "bot \<Rightarrow> bot" where
  "seed_flexipdf_knowledge s =
     save_memory
       (s\<lparr>data := (data s)\<lparr>flexipdf_knowledge :=
                      foldl seed_one (flexipdf_knowledge (data s)) seed_defaults\<rparr>\<rparr>)"

text \<open>
  \<open>AliChatbot(memory_path, ctx_size)\<close> on a file in state \<open>d\<close>. \<open>em\<close> is the similarity
  search when the optional libraries and the model are there; an exception while the
  first index is built switches it off.
\<close>

definition AliChatbot ::
  "nat \<Rightarrow> durable \<Rightarrow> bool \<Rightarrow> string \<Rightarrow> (string \<Rightarrow> json list \<Rightarrow> json list) option \<Rightarrow> bot" where
  "AliChatbot ctx_size d w now em =
     (let s0 = \<lparr> data = default_data, ctx = [], maxlen = ctx_size,
                 embedding_model = None, faiss_index = None, disk = d, writable = w \<rparr>;
          s1 = load_or_init_memory now s0;
          s2 = (case em of
                  None \<Rightarrow> s1
                | Some f \<Rightarrow>
                    (case build_faiss_index (s1\<lparr>embedding_model := Some f\<rparr>) of
                       Inr s \<Rightarrow> s
                     | Inl e \<Rightarrow> s1\<lparr>embedding_model := None, faiss_index := None\<rparr>))
      in seed_flexipdf_knowledge s2)"

text \<open>\<open>deque.append\<close> on a deque bounded by \<open>n\<close>: the new entry goes to the right end and
  what is beyond the bound leaves from the left.\<close>

definition deque_append :: "nat \<Rightarrow> 'a list \<Rightarrow> 'a \<Rightarrow> 'a list" where
  "deque_append n xs x = drop (Suc (length xs) - n) (xs @ [x])"

text \<open>\<open>_remember_conversation\<close>; \<open>now\<close> is the time stamp. The index is rebuilt after the
  save, so an exception there leaves the exchange logged.\<close>

definition remember_conversation :: "string \<Rightarrow> string \<Rightarrow> string \<Rightarrow> bot \<Rightarrow> bot \<times> pyerr option" where
  "remember_conversation now user_text ai_text s =
     (let entry = \<lparr> user = user_text, ai = ai_text, time = now \<rparr>;
          s1 = save_memory
                 (s\<lparr>data := (data s)\<lparr>conversations := conversations (data s) @ [entry_json entry]\<rparr>,
                    ctx := deque_append (maxlen s) (ctx s) entry\<rparr>)
      in if embedding_model s1 \<noteq> None then
           (case build_faiss_index s1 of
              Inl e \<Rightarrow> (s1, Some e)
            | Inr s2 \<Rightarrow> (s2, None))
         else (s1, None))"

text \<open>The shape of the entries that \<open>_remember_conversation\<close> writes to the log: a
  mapping with a string under \<open>user\<close> and something under \<open>ai\<close> and \<open>time\<close>.\<close>

definition entry_ok :: "json \<Rightarrow> bool" where
  "entry_ok c =
     (case c of
        JDict d \<Rightarrow>
          (case dict_get d ''user'' of
             Some (JStr u) \<Rightarrow> dict_get d ''ai'' \<noteq> None \<and> dict_get d ''time'' \<noteq> None
           | _ \<Rightarrow> False)
      | _ \<Rightarrow> False)"

text \<open>Logging a sequence of exchanges, each with its time stamp, one call of
  \<open>_remember_conversation\<close> after the other.\<close>

fun exchange_of :: "string \<times> string \<times> string \<Rightarrow> exchange" where
  "exchange_of (now, u, a) = \<lparr> user = u, ai = a, time = now \<rparr>"

fun log_exchanges :: "(string \<times> string \<times> string) list \<Rightarrow> bot \<Rightarrow> bot" where
  "log_exchanges [] s = s"
| "log_exchanges ((now, u, a) # es) s = log_exchanges es (fst (remember_conversation now u a s))"

section \<open>Regular expressions\<close>

text \<open>
  The patterns of the program, and the matching of Python's \<open>re\<close> on them. Repetition
  is applied to a character class only, as in every pattern of the program. A match
  is tried by backtracking: \<open>run\<close> lists, in the order in which the engine tries them,
  the configurations in which a pattern can end, and the engine takes the first one.
  A configuration holds the character before the position (\<open>None\<close> at the start of the
  string), the text from the position on, and the groups captured so far.
\<close>

datatype rx =
    Lit string
  | Cls "char \<Rightarrow> bool"
  | Wordb
  | Bol
  | Cat rx rx
  | Alt rx rx
  | Star "char \<Rightarrow> bool"
  | Plus "char \<Rightarrow> bool"
  | LazyPlus "char \<Rightarrow> bool"
  | Rep nat nat "char \<Rightarrow> bool"
  | Opt rx
  | Grp nat rx

type_synonym groups = "(nat \<times> string) list"

type_synonym cfg = "char option \<times> string \<times> groups"

text \<open>Under \<open>re.IGNORECASE\<close> (\<open>ic\<close>) a literal character matches in either case, and a
  class holds a character when it holds it in either case.\<close>

definition chr_eq :: "bool \<Rightarrow> char \<Rightarrow> char \<Rightarrow> bool" where
  "chr_eq ic a b = (if ic then lower_char a = lower_char b else a = b)"

definition cls_ok :: "bool \<Rightarrow> (char \<Rightarrow> bool) \<Rightarrow> char \<Rightarrow> bool" where
  "cls_ok ic P c = (P c \<or> (ic \<and> (P (lower_char c) \<or> P (upper_char c))))"

fun lit_match :: "bool \<Rightarrow> string \<Rightarrow> char option \<Rightarrow> string \<Rightarrow> (char option \<times> string) option" where
  "lit_match ic [] p s = Some (p, s)"
| "lit_match ic (a # l) p [] = None"
| "lit_match ic (a # l) p (c # cs) = (if chr_eq ic a c then lit_match ic l (Some c) cs else None)"

text \<open>\<open>\b\<close>: exactly one of the characters before and after the position is a word
  character.\<close>

definition word_before :: "char option \<Rightarrow> bool" where
  "word_before p = (case p of None \<Rightarrow> False | Some c \<Rightarrow> is_word c)"

definition word_after :: "string \<Rightarrow> bool" where
  "word_after s = (case s of [] \<Rightarrow> False | c # cs \<Rightarrow> is_word c)"

definition at_boundary :: "char option \<Rightarrow> string \<Rightarrow> bool" where
  "at_boundary p s = (word_before p \<noteq> word_after s)"

text \<open>A greedy repetition tries the longest run first and gives characters back one
  at a time; a lazy one tries the shortest first.\<close>

fun star_greedy :: "(char \<Rightarrow> bool) \<Rightarrow> char option \<Rightarrow> string \<Rightarrow> (char option \<times> string) list" where
  "star_greedy P p [] = [(p, [])]"
| "star_greedy P p (c # cs) = (if P c then star_greedy P (Some c) cs @ [(p, c # cs)] else [(p, c # cs)])"

fun star_lazy :: "(char \<Rightarrow> bool) \<Rightarrow> char option \<Rightarrow> string \<Rightarrow> (char option \<times> string) list" where
  "star_lazy P p [] = [(p, [])]"
| "star_lazy P p (c # cs) = (p, c # cs) # (if P c then star_lazy P (Some c) cs else [])"

definition plus_greedy :: "(char \<Rightarrow> bool) \<Rightarrow> char option \<Rightarrow> string \<Rightarrow> (char option \<times> string) list" where
  "plus_greedy P p s = (case s of [] \<Rightarrow> [] | c # cs \<Rightarrow> if P c then star_greedy P (Some c) cs else [])"

definition plus_lazy :: "(char \<Rightarrow> bool) \<Rightarrow> char option \<Rightarrow> string \<Rightarrow> (char option \<times> string) list" where
  "plus_lazy P p s = (case s of [] \<Rightarrow> [] | c # cs \<Rightarrow> if P c then star_lazy P (Some c) cs else [])"

fun rep_greedy :: "(char \<Rightarrow> bool) \<Rightarrow> nat \<Rightarrow> nat \<Rightarrow> char option \<Rightarrow> string \<Rightarrow> (char option \<times> string) list" where
  "rep_greedy P lo 0 p s = (if lo = 0 then [(p, s)] else [])"
| "rep_greedy P lo (Suc hi) p [] = (if lo = 0 then [(p, [])] else [])"
| "rep_greedy P lo (Suc hi) p (c # cs) =
     (if P c then rep_greedy P (lo - 1) hi (Some c) cs else []) @ (if lo = 0 then [(p, c # cs)] else [])"

primrec run :: "bool \<Rightarrow> rx \<Rightarrow> cfg \<Rightarrow> cfg list" where
  "run ic (Lit l) =
     (\<lambda>(p, s, g). case lit_match ic l p s of None \<Rightarrow> [] | Some (p', s') \<Rightarrow> [(p', s', g)])"
| "run ic (Cls P) =
     (\<lambda>(p, s, g). case s of [] \<Rightarrow> [] | c # cs \<Rightarrow> if cls_ok ic P c then [(Some c, cs, g)] else [])"
| "run ic Wordb = (\<lambda>(p, s, g). if at_boundary p s then [(p, s, g)] else [])"
| "run ic Bol = (\<lambda>(p, s, g). if p = None then [(p, s, g)] else [])"
| "run ic (Cat a b) = (\<lambda>c. concat (map (run ic b) (run ic a c)))"
| "run ic (Alt a b) = (\<lambda>c. run ic a c @ run ic b c)"
| "run ic (Star P) = (\<lambda>(p, s, g). map (\<lambda>(p', s'). (p', s', g)) (star_greedy (cls_ok ic P) p s))"
| "run ic (Plus P) = (\<lambda>(p, s, g). map (\<lambda>(p', s'). (p', s', g)) (plus_greedy (cls_ok ic P) p s))"
| "run ic (LazyPlus P) = (\<lambda>(p, s, g). map (\<lambda>(p', s'). (p', s', g)) (plus_lazy (cls_ok ic P) p s))"
| "run ic (Rep lo hi P) =
     (\<lambda>(p, s, g). map (\<lambda>(p', s'). (p', s', g)) (rep_greedy (cls_ok ic P) lo hi p s))"
| "run ic (Opt a) = (\<lambda>c. run ic a c @ [c])"
| "run ic (Grp n a) =
     (\<lambda>(p, s, g). map (\<lambda>(p', s', g'). (p', s', (n, take (length s - length s') s) # g'))
                        (run ic a (p, s, g)))"

fun seq :: "rx list \<Rightarrow> rx" where
  "seq [] = Lit []"
| "seq [r] = r"
| "seq (r # rs) = Cat r (seq rs)"

text \<open>\<open>re.match\<close> tries the start of the string only, \<open>re.search\<close> every position from the
  left. Both give the groups of the first way the pattern matches; \<open>group\<close> reads one.\<close>

definition re_match :: "bool \<Rightarrow> rx \<Rightarrow> string \<Rightarrow> groups option" where
  "re_match ic r s = (case run ic r (None, s, []) of [] \<Rightarrow> None | (p, s', g) # cs \<Rightarrow> Some g)"

fun search_from :: "bool \<Rightarrow> rx \<Rightarrow> char option \<Rightarrow> string \<Rightarrow> groups option" where
  "search_from ic r p [] = (case run ic r (p, [], []) of [] \<Rightarrow> None | (p', s', g) # cs \<Rightarrow> Some g)"
| "search_from ic r p (c # s) =
     (case run ic r (p, c # s, []) of
        [] \<Rightarrow> search_from ic r (Some c) s
      | (p', s', g) # cs \<Rightarrow> Some g)"

definition re_search :: "bool \<Rightarrow> rx \<Rightarrow> string \<Rightarrow> groups option" where
  "re_search ic r s = search_from ic r None s"

definition group :: "groups \<Rightarrow> nat \<Rightarrow> string" where
  "group g n = (case map_of g n of None \<Rightarrow> [] | Some t \<Rightarrow> t)"

text \<open>\<open>re.sub(r, "", s)\<close> for a pattern anchored at the start: at most one match, which
  is removed.\<close>

definition re_sub_prefix :: "bool \<Rightarrow> rx \<Rightarrow> string \<Rightarrow> string" where
  "re_sub_prefix ic r s = (case run ic r (None, s, []) of [] \<Rightarrow> s | (p, s', g) # cs \<Rightarrow> s')"

text \<open>The character classes of the patterns: \<open>[A-Za-z\s'\-]\<close>, \<open>[A-Za-z\s]\<close>, \<open>.\<close>,
  \<open>[^?.!]\<close>, \<open>[^']\<close>, \<open>[^:']\<close>, \<open>[a-z_ ]\<close>.\<close>

definition name_chars :: "char \<Rightarrow> bool" where
  "name_chars c = (is_alpha c \<or> is_space c \<or> c = CHR 0x27 \<or> c = CHR ''-'')"

definition place_chars :: "char \<Rightarrow> bool" where
  "place_chars c = (is_alpha c \<or> is_space c)"

definition dot :: "char \<Rightarrow> bool" where
  "dot c = (c \<noteq> CHR 0x0A)"

definition not_end_mark :: "char \<Rightarrow> bool" where
  "not_end_mark c = (c \<notin> set ''?.!'')"

definition not_quote :: "char \<Rightarrow> bool" where
  "not_quote c = (c \<noteq> CHR 0x27)"

definition not_colon_quote :: "char \<Rightarrow> bool" where
  "not_colon_quote c = (c \<noteq> CHR '':'' \<and> c \<noteq> CHR 0x27)"

definition role_chars :: "char \<Rightarrow> bool" where
  "role_chars c = (is_lower c \<or> c = CHR ''_'' \<or> c = CHR '' '')"

text \<open>\<open>\b<phrase>\s+(<class>+)\<close>, the shape of most extractor patterns.\<close>

definition phrase_pattern :: "string \<Rightarrow> (char \<Rightarrow> bool) \<Rightarrow> rx" where
  "phrase_pattern phrase cls = seq [Wordb, Lit phrase, Plus is_space, Grp 1 (Plus cls)]"

text \<open>\<open>\bmy <role> (?:name )?is\s+([A-Za-z\s'\-]+)\<close>.\<close>

definition family_pattern :: "string \<Rightarrow> rx" where
  "family_pattern role =
     seq [Wordb, Lit (''my '' @ role @ '' ''), Opt (Lit ''name ''), Lit ''is'', Plus is_space,
          Grp 1 (Plus name_chars)]"

text \<open>The first pattern of a table that is found in the text, with its key.\<close>

fun first_search :: "(rx \<times> string) list \<Rightarrow> string \<Rightarrow> (string \<times> groups) option" where
  "first_search [] text = None"
| "first_search ((r, key) # rest) text =
     (case re_search True r text of
        Some g \<Rightarrow> Some (key, g)
      | None \<Rightarrow> first_search rest text)"

section \<open>Printing values\<close>

text \<open>
  What an f-string puts for a value: a string as it is, anything else by its \<open>repr\<close>.
  The \<open>repr\<close> of a string picks the double quote when the string has a single quote and
  no double quote, and escapes the backslash, the quote it picked, and control
  characters.
\<close>

definition digit_char :: "nat \<Rightarrow> char" where
  "digit_char n = ''0123456789'' ! (n mod 10)"

fun show_nat :: "nat \<Rightarrow> string" where
  "show_nat n = (if n < 10 then [digit_char n] else show_nat (n div 10) @ [digit_char n])"

definition show_int :: "int \<Rightarrow> string" where
  "show_int i = (if i < 0 then CHR ''-'' # show_nat (nat (- i)) else show_nat (nat i))"

definition hex_char :: "nat \<Rightarrow> char" where
  "hex_char n = ''0123456789abcdef'' ! (n mod 16)"

definition escape_char :: "char \<Rightarrow> char \<Rightarrow> string" where
  "escape_char q c =
     (if c = q \<or> c = CHR 0x5C then [CHR 0x5C, c]
      else if c = CHR 0x0A then [CHR 0x5C, CHR ''n'']
      else if c = CHR 0x0D then [CHR 0x5C, CHR ''r'']
      else if c = CHR 0x09 then [CHR 0x5C, CHR ''t'']
      else if (of_char c :: nat) < 32 \<or> c = CHR 0x7F then
        [CHR 0x5C, CHR ''x'', hex_char (of_char c div 16), hex_char (of_char c)]
      else [c])"

definition repr_str :: "string \<Rightarrow> string" where
  "repr_str s =
     (let q = (if CHR 0x27 \<in> set s \<and> CHR 0x22 \<notin> set s then CHR 0x22 else CHR 0x27)
      in q # concat (map (escape_char q) s) @ [q])"

fun join :: "string \<Rightarrow> string list \<Rightarrow> string" where
  "join sep [] = []"
| "join sep [x] = x"
| "join sep (x # y # xs) = x @ sep @ join sep (y # xs)"

fun repr :: "json \<Rightarrow> string"
  and repr_list :: "json list \<Rightarrow> string list"
  and repr_items :: "(string \<times> json) list \<Rightarrow> string list" where
  "repr JNull = ''None''"
| "repr (JBool b) = (if b then ''True'' else ''False'')"
| "repr (JInt i) = show_int i"
| "repr (JFloat nz r) = r"
| "repr (JStr s) = repr_str s"
| "repr (JList xs) = ''['' @ join '', '' (repr_list xs) @ '']''"
| "repr (JDict d) = ''{'' @ join '', '' (repr_items d) @ ''}''"
| "repr_list [] = []"
| "repr_list (x # xs) = repr x # repr_list xs"
| "repr_items [] = []"
| "repr_items ((k, v) # d) = (repr_str k @ '': '' @ repr v) # repr_items d"

definition py_str :: "json \<Rightarrow> string" where
  "py_str v = (case v of JStr s \<Rightarrow> s | _ \<Rightarrow> repr v)"

section \<open>Extractors\<close>

text \<open>
  An extractor gives the state it leaves and what it returns: \<open>None\<close> when it finds
  nothing, else its confirmation. The confirmations are never empty, so \<open>if learned:\<close>
  in \<open>get_response\<close> is the test for \<open>Some\<close>.
\<close>

definition patterns :: "(rx \<times> string) list" where
  "patterns =
     [(phrase_pattern ''my name is'' name_chars, ''user_name''),
      (phrase_pattern ''i am called'' name_chars, ''user_name''),
      (phrase_pattern (''i'' @ [CHR 0x27] @ ''m called'') name_chars, ''user_name''),
      (phrase_pattern ''my country is'' place_chars, ''country''),
      (phrase_pattern ''i am from'' place_chars, ''country''),
      (phrase_pattern ''from'' place_chars, ''country''),
      (phrase_pattern ''my city is'' place_chars, ''city''),
      (phrase_pattern ''i live in'' place_chars, ''city''),
      (phrase_pattern ''my favorite color is'' place_chars, ''favorite_color''),
      (phrase_pattern ''my hobby is'' place_chars, ''hobby''),
      (phrase_pattern ''i like'' place_chars, ''likes''),
      (seq [Wordb, Lit ''my age is'', Plus is_space, Grp 1 (Rep 1 3 is_digit)], ''age'')]"

definition rel_patterns :: "(rx \<times> string) list" where
  "rel_patterns =
     [(phrase_pattern ''my friend is'' name_chars, ''friend''),
      (phrase_pattern ''my best friend is'' name_chars, ''best_friend''),
      (phrase_pattern ''my girlfriend is'' name_chars, ''girlfriend''),
      (phrase_pattern ''my boyfriend is'' name_chars, ''boyfriend''),
      (phrase_pattern ''my teacher is'' name_chars, ''teacher''),
      (family_pattern ''mother'', ''mother''),
      (family_pattern ''father'', ''father''),
      (family_pattern ''sister'', ''sister''),
      (family_pattern ''brother'', ''brother''),
      (phrase_pattern ''my crush is'' name_chars, ''crush'')]"

text \<open>\<open>m.group(1).strip().rstrip(".!?")\<close>.\<close>

definition captured :: "groups \<Rightarrow> nat \<Rightarrow> string" where
  "captured g n = rstrip_chars ''.!?'' (strip (group g n))"

definition heart_of :: "string \<Rightarrow> string" where
  "heart_of key =
     (if key \<in> set [''girlfriend'', ''boyfriend'', ''crush''] then utf8 0x1F49E else utf8 0x1F91D)"

definition structured_reply :: "string \<Rightarrow> string \<Rightarrow> string" where
  "structured_reply key stored =
     (if key = ''user_name'' then
        ''Nice to meet you, '' @ stored @ ''! '' @ utf8 0x1F4AB @ '' I'' @ [CHR 0x27] @
        ''ll remember your name.''
      else if key = ''country'' then
        ''Oh nice! '' @ utf8 0x1F30D @ '' '' @ stored @ '' '' @ utf8 0x2014 @ '' I'' @ [CHR 0x27] @
        ''ll remember that.''
      else if key = ''city'' then
        stored @ '' sounds like a lovely city '' @ utf8 0x1F3D9 @ utf8 0xFE0F @ '' '' @ utf8 0x2014 @
        '' got it!''
      else
        ''Got it! I'' @ utf8 0x2019 @ ''ve learned that your '' @ replace_char CHR ''_'' CHR '' '' key @
        '' is '' @ stored @ '' '' @ utf8 0x1F9E0)"

definition relationship_reply :: "string \<Rightarrow> string \<Rightarrow> string" where
  "relationship_reply key v =
     ''Nice '' @ utf8 0x2014 @ '' I'' @ utf8 0x2019 @ ''ve learned your '' @
     replace_char CHR ''_'' CHR '' '' key @ '' is '' @ v @ '' '' @ heart_of key"

definition learn_structured_fact :: "string \<Rightarrow> bot \<Rightarrow> bot \<times> string option" where
  "learn_structured_fact text s =
     (case first_search patterns text of
        Some (key, g) \<Rightarrow>
          (let v = captured g 1;
               stored = (if key \<in> set [''user_name''] then title v else capitalize v)
           in (save_memory (s\<lparr>data := data_store key stored (data s)\<rparr>),
               Some (structured_reply key stored)))
      | None \<Rightarrow>
          (case first_search rel_patterns text of
             Some (key, g) \<Rightarrow>
               (let v = title (captured g 1)
                in (save_memory
                      (s\<lparr>data := (data s)\<lparr>relationships :=
                                     dict_set (relationships (data s)) key (JStr v)\<rparr>\<rparr>),
                    Some (relationship_reply key v)))
           | None \<Rightarrow> (s, None)))"

text \<open>\<open>_learn_fact_statement\<close>: the guard \<open>\s*(what|who|why|how)\b\<close>, then
  \<open>\s*([^?.!]+?)\s+is\s+(.+)\<close>, both tried at the start of the line.\<close>

definition question_guard :: rx where
  "question_guard =
     seq [Star is_space, Grp 1 (Alt (Lit ''what'') (Alt (Lit ''who'') (Alt (Lit ''why'') (Lit ''how'')))),
          Wordb]"

definition fact_pattern :: rx where
  "fact_pattern =
     seq [Star is_space, Grp 1 (LazyPlus not_end_mark), Plus is_space, Lit ''is'', Plus is_space,
          Grp 2 (Plus dot)]"

definition fact_reply :: "string \<Rightarrow> string \<Rightarrow> string" where
  "fact_reply subject meaning =
     ''Got it! I'' @ utf8 0x2019 @ ''ve learned that **'' @ subject @ ''** is **'' @ meaning @
     ''** '' @ utf8 0x1F9E0"

definition learn_fact_statement :: "string \<Rightarrow> bot \<Rightarrow> bot \<times> string option" where
  "learn_fact_statement text s =
     (if re_match True question_guard text \<noteq> None then (s, None)
      else case re_match True fact_pattern text of
             None \<Rightarrow> (s, None)
           | Some g \<Rightarrow>
               (let subject = lower (captured g 1);
                    meaning = captured g 2
                in if length subject < 2 \<or> length meaning < 1 then (s, None)
                   else (save_memory
                           (s\<lparr>data := (data s)\<lparr>facts :=
                                          dict_set (facts (data s)) subject (JStr meaning)\<rparr>\<rparr>),
                         Some (fact_reply subject meaning))))"

text \<open>\<open>_learn_flexipdf_knowledge\<close>: \<open>ali learn\s+'([^']+)'\s+means\s+(.+)\<close>, then
  \<open>teach ali about\s+'?([^:']+)'?:\s*(.+)\<close>.\<close>

definition learn_pattern :: rx where
  "learn_pattern =
     seq [Lit ''ali learn'', Plus is_space, Lit [CHR 0x27], Grp 1 (Plus not_quote), Lit [CHR 0x27],
          Plus is_space, Lit ''means'', Plus is_space, Grp 2 (Plus dot)]"

definition teach_pattern :: rx where
  "teach_pattern =
     seq [Lit ''teach ali about'', Plus is_space, Opt (Lit [CHR 0x27]), Grp 1 (Plus not_colon_quote),
          Opt (Lit [CHR 0x27]), Lit '':'', Star is_space, Grp 2 (Plus dot)]"

definition knowledge_key :: "groups \<Rightarrow> string" where
  "knowledge_key g = replace_char CHR '' '' CHR ''_'' (lower (strip (group g 1)))"

definition teach_knowledge :: "string \<Rightarrow> string \<Rightarrow> bot \<Rightarrow> bot" where
  "teach_knowledge key explanation s =
     save_memory
       (s\<lparr>data := (data s)\<lparr>flexipdf_knowledge :=
                      dict_set (flexipdf_knowledge (data s)) key (JStr explanation)\<rparr>\<rparr>)"

definition learn_flexipdf_knowledge :: "string \<Rightarrow> bot \<Rightarrow> bot \<times> string option" where
  "learn_flexipdf_knowledge text s =
     (case re_search True learn_pattern text of
        Some g \<Rightarrow>
          (let key = knowledge_key g; explanation = captured g 2
           in (teach_knowledge key explanation s,
               Some (''Nice! I learned that **'' @ replace_char CHR ''_'' CHR '' '' key @
                     ''** means: '' @ explanation @ '' '' @ utf8 0x2705)))
      | None \<Rightarrow>
          (case re_search True teach_pattern text of
             Some g \<Rightarrow>
               (let key = knowledge_key g; explanation = captured g 2
                in (teach_knowledge key explanation s,
                    Some (''Thanks '' @ utf8 0x2014 @ '' I learned about **'' @
                          replace_char CHR ''_'' CHR '' '' key @ ''**: '' @ explanation @ '' '' @
                          utf8 0x2705)))
           | None \<Rightarrow> (s, None)))"

section \<open>Query resolvers\<close>

text \<open>\<open>_answer_fact_query\<close>: \<open>\s*(what is|who is|define)\s+(.+)\??\<close> at the start of the
  line; the article is removed by \<open>re.sub(r"^(the|a|an)\s+", "", term)\<close>, which is case
  sensitive.\<close>

definition query_pattern :: rx where
  "query_pattern =
     seq [Star is_space, Grp 1 (Alt (Lit ''what is'') (Alt (Lit ''who is'') (Lit ''define''))),
          Plus is_space, Grp 2 (Plus dot), Opt (Lit ''?'')]"

definition article_pattern :: rx where
  "article_pattern = seq [Bol, Grp 1 (Alt (Lit ''the'') (Alt (Lit ''a'') (Lit ''an''))), Plus is_space]"

definition fact_answer :: "string \<Rightarrow> json \<Rightarrow> string" where
  "fact_answer term v = capitalize term @ '' is '' @ py_str v @ '' '' @ utf8 0x1F4A1"

definition answer_fact_query :: "string \<Rightarrow> bot \<Rightarrow> string option" where
  "answer_fact_query text s =
     (case re_match True query_pattern text of
        None \<Rightarrow> None
      | Some g \<Rightarrow>
          (let term = lower (captured g 2) in
           case dict_get (facts (data s)) term of
             Some v \<Rightarrow> Some (fact_answer term v)
           | None \<Rightarrow>
               (case dict_get (flexipdf_knowledge (data s)) term of
                  Some v \<Rightarrow> Some (capitalize (replace_char CHR ''_'' CHR '' '' term) @ '': '' @ py_str v)
                | None \<Rightarrow>
                    (let term_clean = re_sub_prefix False article_pattern term in
                     case dict_get (facts (data s)) term_clean of
                       Some v \<Rightarrow> Some (fact_answer term_clean v)
                     | None \<Rightarrow> None))))"

text \<open>\<open>_answer_relationship_query\<close>: the loop over the roles known, in their order, then
  \<open>who is my ([a-z_ ]+)\??\<close> anywhere in the line.\<close>

fun rel_scan :: "string list \<Rightarrow> json dict \<Rightarrow> string \<Rightarrow> string option" where
  "rel_scan [] rels low = None"
| "rel_scan (rel # rest) rels low =
     (if contains (''who is my '' @ replace_char CHR ''_'' CHR '' '' rel) low \<or> contains rel low then
        (case dict_get rels rel of
           Some name \<Rightarrow>
             if truthy name then
               Some (''Your '' @ replace_char CHR ''_'' CHR '' '' rel @ '' is '' @ py_str name @ '' '' @
                     heart_of rel)
             else rel_scan rest rels low
         | None \<Rightarrow> rel_scan rest rels low)
      else rel_scan rest rels low)"

definition who_pattern :: rx where
  "who_pattern = seq [Lit ''who is my '', Grp 1 (Plus role_chars), Opt (Lit ''?'')]"

definition answer_relationship_query :: "string \<Rightarrow> bot \<Rightarrow> string option" where
  "answer_relationship_query text s =
     (let rels = relationships (data s) in
      case rel_scan (dict_keys rels) rels (lower text) of
        Some r \<Rightarrow> Some r
      | None \<Rightarrow>
          (case re_search True who_pattern text of
             None \<Rightarrow> None
           | Some g \<Rightarrow>
               (let key = replace_char CHR '' '' CHR ''_'' (strip (group g 1)) in
                case dict_get rels key of
                  Some name \<Rightarrow>
                    if truthy name then
                      Some (''Your '' @ replace_char CHR ''_'' CHR '' '' key @ '' is '' @ py_str name @
                            '' '' @ utf8 0x1F496)
                    else None
                | None \<Rightarrow> None)))"

text \<open>\<open>_answer_personal_query\<close>: the first phrase of \<open>q_map\<close> found in the line answers,
  with the value or with the hint.\<close>

definition q_map :: "(string \<times> string) list" where
  "q_map =
     [(''my name'', ''user_name''), (''who am i'', ''user_name''), (''my country'', ''country''),
      (''what is my country'', ''country''), (''my city'', ''city''), (''what is my city'', ''city''),
      (''favorite color'', ''favorite_color''), (''my hobby'', ''hobby''), (''my age'', ''age'')]"

definition personal_known :: "string \<Rightarrow> string \<Rightarrow> string" where
  "personal_known key v =
     ''Your '' @ replace_char CHR ''_'' CHR '' '' key @ '' is '' @ v @ '' '' @ utf8 0x1F31F"

definition personal_unknown :: "string \<Rightarrow> string" where
  "personal_unknown key =
     ''I don'' @ utf8 0x2019 @ ''t know your '' @ replace_char CHR ''_'' CHR '' '' key @
     '' yet. Tell me by saying '' @ [CHR 0x27] @ ''My '' @ replace_char CHR ''_'' CHR '' '' key @
     '' is ...'' @ [CHR 0x27]"

fun personal_scan :: "(string \<times> string) list \<Rightarrow> memory \<Rightarrow> string \<Rightarrow> string option" where
  "personal_scan [] d low = None"
| "personal_scan ((phrase, key) # rest) d low =
     (if contains phrase low then
        (case data_scalar d key of
           Some v \<Rightarrow> if v \<noteq> [] then Some (personal_known key v) else Some (personal_unknown key)
         | None \<Rightarrow> Some (personal_unknown key))
      else personal_scan rest d low)"

definition answer_personal_query :: "string \<Rightarrow> bot \<Rightarrow> string option" where
  "answer_personal_query text s = personal_scan q_map (data s) (lower text)"

text \<open>
  \<open>_contextual_reference\<close>. The scan of the conversation log calls \<open>get\<close> on every entry
  and \<open>lower\<close> on what it gets, so an entry that is not a mapping, or whose \<open>user\<close> is
  not a string, raises; so does a match that lacks one of the three keys.
\<close>

definition time_cues :: "string list" where
  "time_cues = [''yesterday'', ''earlier'', ''before'', ''last time'', ''you told me'']"

fun recall_scan :: "exchange list \<Rightarrow> string option" where
  "recall_scan [] = None"
| "recall_scan (e # es) =
     (if length (split (user e)) > 2 then
        Some (''You mentioned earlier: '' @ [CHR 0x22] @ user e @ [CHR 0x22] @ '' '' @ utf8 0x2014 @
              '' would you like to continue that topic?'')
      else recall_scan es)"

definition told_pattern :: rx where
  "told_pattern = seq [Lit ''what did i tell you about '', Grp 1 (Plus dot), Opt (Lit ''?'')]"

fun topic_matches :: "string \<Rightarrow> json list \<Rightarrow> pyerr + json dict list" where
  "topic_matches topic [] = Inr []"
| "topic_matches topic (c # cs) =
     (case c of
        JDict d \<Rightarrow>
          (case (case dict_get d ''user'' of None \<Rightarrow> JStr [] | Some u \<Rightarrow> u) of
             JStr u \<Rightarrow>
               (case topic_matches topic cs of
                  Inl e \<Rightarrow> Inl e
                | Inr ms \<Rightarrow> Inr (if contains topic (lower u) then d # ms else ms))
           | _ \<Rightarrow> Inl AttributeError)
      | _ \<Rightarrow> Inl AttributeError)"

definition told_reply :: "json dict \<Rightarrow> pyerr + string option" where
  "told_reply sample =
     (case dict_get sample ''user'' of
        None \<Rightarrow> Inl KeyError
      | Some u \<Rightarrow>
          (case dict_get sample ''ai'' of
             None \<Rightarrow> Inl KeyError
           | Some a \<Rightarrow>
               (case dict_get sample ''time'' of
                  None \<Rightarrow> Inl KeyError
                | Some t \<Rightarrow>
                    Inr (Some (''You told me: '' @ [CHR 0x22] @ py_str u @ [CHR 0x22] @ '' '' @
                               utf8 0x2014 @ '' I replied: '' @ [CHR 0x22] @ py_str a @ [CHR 0x22] @
                               '' on '' @ py_str t)))))"

definition not_found_reply :: string where
  "not_found_reply =
     ''I don'' @ [CHR 0x27] @ ''t see that in my recent chats. Want to tell me about it now?''"

definition semantic_reply :: "string \<Rightarrow> bot \<Rightarrow> string" where
  "semantic_reply topic s =
     (case embedding_model s of
        None \<Rightarrow> not_found_reply
      | Some search \<Rightarrow>
          (case faiss_index s of
             None \<Rightarrow> not_found_reply
           | Some texts \<Rightarrow>
               (case search topic texts of
                  [] \<Rightarrow> not_found_reply
                | r # rs \<Rightarrow>
                    ''I found something related: '' @ [CHR 0x22] @ py_str r @ [CHR 0x22] @ '' '' @
                    utf8 0x2014 @ '' does that match what you meant?'')))"

definition contextual_reference :: "string \<Rightarrow> bot \<Rightarrow> pyerr + string option" where
  "contextual_reference text s =
     (if list_ex (\<lambda>tok. contains tok (lower text)) time_cues then
        (case recall_scan (rev (ctx s)) of
           Some r \<Rightarrow> Inr (Some r)
         | None \<Rightarrow>
             Inr (Some (''I remember bits of our last chats '' @ utf8 0x2014 @
                        '' what would you like to continue?'')))
      else case re_search True told_pattern text of
             None \<Rightarrow> Inr None
           | Some g \<Rightarrow>
               (let topic = strip (group g 1) in
                case topic_matches (lower topic) (rev (conversations (data s))) of
                  Inl e \<Rightarrow> Inl e
                | Inr [] \<Rightarrow> Inr (Some (semantic_reply topic s))
                | Inr (sample # ms) \<Rightarrow> told_reply sample))"

section \<open>The dispatcher\<close>

text \<open>The help phrases of \<open>get_response\<close>: every phrase found in the line is looked up,
  in the order of \<open>help_map\<close>, until one has an answer that counts as true.\<close>

definition help_map :: "(string \<times> string) list" where
  "help_map =
     [(''how do i convert pdf to word'', ''pdf_to_word''), (''convert pdf to word'', ''pdf_to_word''),
      (''how to convert pdf to word'', ''pdf_to_word''), (''pdf to word'', ''pdf_to_word''),
      (''word to pdf'', ''word_to_pdf''), (''pdf to image'', ''pdf_to_image''),
      (''images to pdf'', ''images_to_pdf''), (''merge pdf'', ''merge_pdfs''),
      (''split pdf'', ''split_pdf''), (''compress pdf'', ''compress_pdf''),
      (''what can you do'', ''ai_assistant''), (''who made you'', ''about'')]"

definition help_reply :: "json \<Rightarrow> string" where
  "help_reply answer =
     py_str answer @ '' If you'' @ [CHR 0x27] @ ''d like, I can guide you step-by-step.''"

fun help_scan :: "(string \<times> string) list \<Rightarrow> json dict \<Rightarrow> string \<Rightarrow> string option" where
  "help_scan [] kb low = None"
| "help_scan ((phrase, key) # rest) kb low =
     (if contains phrase low then
        (case dict_get kb key of
           Some answer \<Rightarrow> if truthy answer then Some (help_reply answer) else help_scan rest kb low
         | None \<Rightarrow> help_scan rest kb low)
      else help_scan rest kb low)"

text \<open>The mood replies: \<open>\b(i am|i'm)\s+(sad|happy|angry|tired|bored|excited)\b\<close> must be
  found, and the mood is then read from the first place where \<open>\b(i am|i'm)\s+(\w+)\b\<close>
  is.\<close>

definition i_am :: rx where
  "i_am = Alt (Lit ''i am'') (Lit (''i'' @ [CHR 0x27] @ ''m''))"

definition emotion_pattern :: rx where
  "emotion_pattern =
     seq [Wordb, Grp 1 i_am, Plus is_space,
          Grp 2 (Alt (Lit ''sad'') (Alt (Lit ''happy'') (Alt (Lit ''angry'') (Alt (Lit ''tired'')
                  (Alt (Lit ''bored'') (Lit ''excited'')))))),
          Wordb]"

definition mood_pattern :: rx where
  "mood_pattern = seq [Wordb, Grp 1 i_am, Plus is_space, Grp 2 (Plus is_word), Wordb]"

definition mood_replies :: "(string \<times> string) list" where
  "mood_replies =
     [(''sad'', ''Oh no '' @ utf8 0x1F622 @ '' I'' @ [CHR 0x27] @ ''m here for you '' @ utf8 0x2014 @
         '' want to tell me what'' @ [CHR 0x27] @ ''s wrong?''),
      (''happy'', ''Yay '' @ utf8 0x1F604 @ '' I'' @ [CHR 0x27] @ ''m happy for you!''),
      (''angry'', ''Take a deep breath '' @ utf8 0x1F624 @ '' '' @ utf8 0x2014 @ '' I'' @ utf8 0x2019 @
         ''m with you.''),
      (''tired'', ''Maybe a short break will help '' @ utf8 0x1F4A4),
      (''bored'', ''Let'' @ utf8 0x2019 @ ''s do something fun '' @ utf8 0x2014 @
         '' want a joke or a fact?''),
      (''excited'', ''Awesome! Tell me what'' @ [CHR 0x27] @ ''s got you excited '' @ utf8 0x1F389)]"

definition mood_reply :: "string \<Rightarrow> string option" where
  "mood_reply low =
     (if re_search True emotion_pattern low \<noteq> None then
        (case re_search True mood_pattern low of
           None \<Rightarrow> None
         | Some g \<Rightarrow> map_of mood_replies (lower (group g 2)))
      else None)"

definition greeting_pattern :: rx where
  "greeting_pattern =
     seq [Bol, Grp 1 (Alt (Lit ''hi'') (Alt (Lit ''hello'') (Alt (Lit ''hey'') (Alt (Lit ''yo'')
                        (Lit ''hiya''))))),
          Wordb]"

definition topic_pattern :: rx where
  "topic_pattern =
     seq [Alt (Lit ''tell me about'') (Lit ''what do you know about''), Plus is_space, Grp 1 (Plus dot)]"

text \<open>\<open>self.data.get("user_name") or "friend"\<close>.\<close>

definition name_or_friend :: "bot \<Rightarrow> string" where
  "name_or_friend s = (case user_name (data s) of None \<Rightarrow> ''friend'' | Some n \<Rightarrow> if n = [] then ''friend'' else n)"

definition greeting_reply :: "bot \<Rightarrow> string" where
  "greeting_reply s =
     ''Hey '' @ name_or_friend s @ ''! '' @ utf8 0x1F44B @ '' I'' @ [CHR 0x27] @ ''m Ali '' @ utf8 0x2014 @
     '' your FlexiPDF AI assistant. How can I help you today?''"

text \<open>The answer to \<open>tell me about <topic>\<close>. A value of the knowledge base is returned
  as it is; the model prints it, which changes nothing for a string.\<close>

definition topic_reply :: "string \<Rightarrow> bot \<Rightarrow> string" where
  "topic_reply topic s =
     (case dict_get (facts (data s)) topic of
        Some v \<Rightarrow> capitalize topic @ '' is '' @ py_str v
      | None \<Rightarrow>
          (case dict_get (flexipdf_knowledge (data s)) topic of
             Some v \<Rightarrow> py_str v
           | None \<Rightarrow>
               ''I don'' @ [CHR 0x27] @ ''t have much on '' @ topic @ '' yet '' @ utf8 0x2014 @
               '' would you like to teach me? Say: Ali learn '' @ [CHR 0x27] @ topic @ [CHR 0x27] @
               '' means <your explanation>''))"

text \<open>\<open>_friendly_fallback\<close> returns its first template.\<close>

definition friendly_fallback :: "string \<Rightarrow> bot \<Rightarrow> string" where
  "friendly_fallback user_text s =
     ''Hmm '' @ utf8 0x1F914 @ '' interesting, '' @ name_or_friend s @ ''. Tell me more about that.''"

definition empty_prompt :: string where
  "empty_prompt = ''Type something for me to respond to '' @ utf8 0x270D @ utf8 0xFE0F"

text \<open>
  \<open>self._remember_conversation(text, reply); return reply\<close>, the end of every branch of
  \<open>get_response\<close> but the first. The result of \<open>get_response\<close> is the state it leaves and
  either the exception that left it or the reply.
\<close>

definition log_return :: "string \<Rightarrow> string \<Rightarrow> string \<Rightarrow> bot \<Rightarrow> bot \<times> (pyerr + string)" where
  "log_return now text reply s =
     (case remember_conversation now text reply s of
        (s', None) \<Rightarrow> (s', Inr reply)
      | (s', Some e) \<Rightarrow> (s', Inl e))"

text \<open>\<open>get_response\<close>, in three parts: steps 8 to 12, steps 4 to 7, and the function
  from its start.\<close>

definition small_talk :: "string \<Rightarrow> string \<Rightarrow> bot \<Rightarrow> bot \<times> (pyerr + string)" where
  "small_talk now text s =
     (let low = lower text in
      case help_scan help_map (flexipdf_knowledge (data s)) low of
        Some resp \<Rightarrow> log_return now text resp s
      | None \<Rightarrow>
          (case mood_reply low of
             Some reply \<Rightarrow> log_return now text reply s
           | None \<Rightarrow>
               if re_match True greeting_pattern low \<noteq> None then
                 log_return now text (greeting_reply s) s
               else
                 (case re_match True topic_pattern low of
                    Some g \<Rightarrow> log_return now text (topic_reply (lower (strip (group g 1))) s) s
                  | None \<Rightarrow> log_return now text (friendly_fallback text s) s)))"

definition answer_queries :: "string \<Rightarrow> string \<Rightarrow> bot \<Rightarrow> bot \<times> (pyerr + string)" where
  "answer_queries now text s =
     (case answer_relationship_query text s of
        Some rel_ans \<Rightarrow> log_return now text rel_ans s
      | None \<Rightarrow>
          (case answer_fact_query text s of
             Some fact_ans \<Rightarrow> log_return now text fact_ans s
           | None \<Rightarrow>
               (case answer_personal_query text s of
                  Some personal \<Rightarrow> log_return now text personal s
                | None \<Rightarrow>
                    (case contextual_reference text s of
                       Inl e \<Rightarrow> (s, Inl e)
                     | Inr (Some ctx_ref) \<Rightarrow> log_return now text ctx_ref s
                     | Inr None \<Rightarrow> small_talk now text s))))"

definition get_response :: "string \<Rightarrow> string \<Rightarrow> bot \<Rightarrow> bot \<times> (pyerr + string)" where
  "get_response now user_input s =
     (if user_input = [] \<or> strip user_input = [] then (s, Inr empty_prompt)
      else
        (let text = strip user_input in
         case learn_structured_fact text s of
           (s1, Some learned) \<Rightarrow> log_return now text learned s1
         | (s1, None) \<Rightarrow>
             (case learn_flexipdf_knowledge text s1 of
                (s2, Some learned_fp) \<Rightarrow> log_return now text learned_fp s2
              | (s2, None) \<Rightarrow>
                  (case learn_fact_statement text s2 of
                     (s3, Some learned_fact) \<Rightarrow> log_return now text learned_fact s3
                   | (s3, None) \<Rightarrow> answer_queries now text s3))))"

text \<open>A profile key holds \<open>None\<close> by default, so the value of the record is adopted for
  it only when it is \<open>None\<close> too.\<close>

definition no_profile :: "memory \<Rightarrow> bool" where
  "no_profile d = (user_name d = None \<and> country d = None \<and> city d = None \<and> language d = None)"

section \<open>Properties of saving, logging and the context buffer\<close>

lemma save_memory_fields [simp]:
  "data (save_memory s) = data s" "ctx (save_memory s) = ctx s" "maxlen (save_memory s) = maxlen s"
  "embedding_model (save_memory s) = embedding_model s" "faiss_index (save_memory s) = faiss_index s"
  "writable (save_memory s) = writable s"
  by (simp_all add: save_memory_def)

lemma build_faiss_index_fields:
  "build_faiss_index s = Inr s' \<Longrightarrow>
     data s' = data s \<and> ctx s' = ctx s \<and> maxlen s' = maxlen s \<and> disk s' = disk s
     \<and> writable s' = writable s \<and> embedding_model s' = embedding_model s"
  by (auto simp: build_faiss_index_def split: if_splits sum.splits)

lemma remember_conversation_ctx:
  "ctx (fst (remember_conversation now u a s)) =
     deque_append (maxlen s) (ctx s) \<lparr> user = u, ai = a, time = now \<rparr>"
  by (auto simp: remember_conversation_def Let_def split: sum.splits dest: build_faiss_index_fields)

lemma remember_conversation_maxlen:
  "maxlen (fst (remember_conversation now u a s)) = maxlen s"
  by (auto simp: remember_conversation_def Let_def split: sum.splits dest: build_faiss_index_fields)

lemma remember_conversation_log:
  "conversations (data (fst (remember_conversation now u a s))) =
     conversations (data s) @ [entry_json \<lparr> user = u, ai = a, time = now \<rparr>]"
  by (auto simp: remember_conversation_def Let_def split: sum.splits dest: build_faiss_index_fields)

lemma log_exchanges_maxlen: "maxlen (log_exchanges es s) = maxlen s"
  by (induction es s rule: log_exchanges.induct) (simp_all add: remember_conversation_maxlen)

lemma deque_append_drop:
  assumes "length xs \<le> n"
  shows "drop (length (deque_append n xs e) + length ys - n) (deque_append n xs e @ ys) =
         drop (length xs + Suc (length ys) - n) (xs @ e # ys)"
proof (cases "length xs < n")
  case True
  then show ?thesis by (simp add: deque_append_def)
next
  case False
  with assms have full: "length xs = n" by simp
  show ?thesis
  proof (cases xs)
    case Nil
    with full show ?thesis by (simp add: deque_append_def)
  next
    case (Cons x xs')
    with full have "deque_append n xs e = xs' @ [e]" by (simp add: deque_append_def)
    with Cons full show ?thesis by simp
  qed
qed

lemma log_exchanges_ctx:
  "length (ctx s) \<le> maxlen s \<Longrightarrow>
   ctx (log_exchanges es s) =
     drop (length (ctx s) + length es - maxlen s) (ctx s @ map exchange_of es)"
proof (induction es s rule: log_exchanges.induct)
  case (1 s)
  then show ?case by simp
next
  case (2 now u a es s)
  let ?s1 = "fst (remember_conversation now u a s)"
  let ?e = "\<lparr> user = u, ai = a, time = now \<rparr>"
  have c1: "ctx ?s1 = deque_append (maxlen s) (ctx s) ?e"
    by (simp add: remember_conversation_ctx)
  have m1: "maxlen ?s1 = maxlen s" by (rule remember_conversation_maxlen)
  have len1: "length (ctx ?s1) \<le> maxlen ?s1"
    using "2.prems" by (simp add: c1 m1 deque_append_def)
  have "ctx (log_exchanges es ?s1) =
          drop (length (ctx ?s1) + length es - maxlen ?s1) (ctx ?s1 @ map exchange_of es)"
    by (rule "2.IH" [OF len1])
  also have "\<dots> = drop (length (ctx s) + Suc (length es) - maxlen s)
                      (ctx s @ ?e # map exchange_of es)"
    using deque_append_drop [OF "2.prems", of ?e "map exchange_of es"] by (simp add: c1 m1)
  finally show ?case by simp
qed

text \<open>
  Claim C5. Whatever exchanges are logged, the context buffer never holds more than
  its bound \<open>maxlen\<close>: it holds the most recent entries of what it held and what was
  logged, in logging order. Starting from an empty buffer, after \<open>maxlen + 1\<close> exchanges
  the first one has left and the \<open>maxlen\<close> later ones are there in order.
\<close>

theorem context_buffer_bounded:
  assumes "length (ctx s) \<le> maxlen s"
  shows "length (ctx (log_exchanges es s)) \<le> maxlen s
       \<and> ctx (log_exchanges es s) =
           drop (length (ctx s) + length es - maxlen s) (ctx s @ map exchange_of es)
       \<and> (ctx s = [] \<and> length es = Suc (maxlen s) \<longrightarrow>
            ctx (log_exchanges es s) = tl (map exchange_of es))"
  using assms by (auto simp: log_exchanges_ctx drop_Suc)

theorem context_buffer_bounded_witness:
  "length (ctx \<lparr> data = default_data, ctx = [], maxlen = 2, embedding_model = None,
                 faiss_index = None, disk = Missing, writable = True \<rparr>) \<le> 2
   \<and> ctx (log_exchanges [(''t1'', ''a'', ''x''), (''t2'', ''b'', ''y''), (''t3'', ''c'', ''z'')]
            \<lparr> data = default_data, ctx = [], maxlen = 2, embedding_model = None,
              faiss_index = None, disk = Missing, writable = True \<rparr>)
     = [\<lparr> user = ''b'', ai = ''y'', time = ''t2'' \<rparr>, \<lparr> user = ''c'', ai = ''z'', time = ''t3'' \<rparr>]"
  using context_buffer_bounded
    [of "\<lparr> data = default_data, ctx = [], maxlen = 2, embedding_model = None,
           faiss_index = None, disk = Missing, writable = True \<rparr>"
        "[(''t1'', ''a'', ''x''), (''t2'', ''b'', ''y''), (''t3'', ''c'', ''z'')]"]
  by simp

section \<open>Properties of dictionaries\<close>

lemma dict_get_Nil [simp]: "dict_get [] k = None"
  by (simp add: dict_get_def)

lemma dict_get_dict_set_same [simp]: "dict_get (dict_set d k v) k = Some v"
  by (induction d k v rule: dict_set.induct) (simp_all add: dict_get_def)

lemma dict_get_dict_set_other [simp]: "k' \<noteq> k \<Longrightarrow> dict_get (dict_set d k v) k' = dict_get d k'"
  by (induction d k v rule: dict_set.induct) (simp_all add: dict_get_def)

lemma dict_keys_dict_set: "set (dict_keys (dict_set d k v)) = insert k (set (dict_keys d))"
  by (induction d k v rule: dict_set.induct) (auto simp: dict_keys_def)

lemma dict_get_tabulate:
  "dict_get (map (\<lambda>k. (k, f k)) ks) k = (if k \<in> set ks then Some (f k) else None)"
  by (induction ks) (simp_all add: dict_get_def)

section \<open>Properties of reset\<close>

lemma build_faiss_index_empty_log:
  "conversations (data s) = [] \<Longrightarrow> build_faiss_index s = Inr (s\<lparr>faiss_index := None\<rparr>)"
  by (simp add: build_faiss_index_def)

lemma reset_memory_state:
  "fst (reset_memory now s) =
     (if embedding_model s = None then
        save_memory (s\<lparr>data := default_data\<lparr>meta := [(''created_at'', JStr now)]\<rparr>, ctx := []\<rparr>)
      else (save_memory (s\<lparr>data := default_data\<lparr>meta := [(''created_at'', JStr now)]\<rparr>, ctx := []\<rparr>))
             \<lparr>faiss_index := None\<rparr>)"
  by (simp add: reset_memory_def Let_def build_faiss_index_empty_log default_data_def)

lemma reset_memory_result: "snd (reset_memory now s) = Inr reset_message"
  by (simp add: reset_memory_def Let_def build_faiss_index_empty_log default_data_def)

text \<open>
  Claim C7. A reset at clock reading \<open>now\<close> leaves the default state: every field at
  its default, with the fresh creation time stamp \<open>now\<close> in \<open>meta.created_at\<close>; the
  context buffer is empty and the confirmation is returned. A second reset in a row
  leaves the default state again, with its own time stamp, and the buffer empty
  again; it leaves exactly the state that this reset alone would have left, so the
  first reset adds nothing to it.
\<close>

theorem reset_memory_default_state:
  "data (fst (reset_memory now s)) = default_data\<lparr>meta := [(''created_at'', JStr now)]\<rparr>
   \<and> ctx (fst (reset_memory now s)) = []
   \<and> snd (reset_memory now s) = Inr reset_message
   \<and> data (fst (reset_memory now' (fst (reset_memory now s)))) =
       default_data\<lparr>meta := [(''created_at'', JStr now')]\<rparr>
   \<and> ctx (fst (reset_memory now' (fst (reset_memory now s)))) = []
   \<and> fst (reset_memory now' (fst (reset_memory now s))) = fst (reset_memory now' s)"
  by (simp add: reset_memory_state reset_memory_result save_memory_def)

section \<open>Properties of loading\<close>

lemma others_data_adopt:
  "k \<in> set schema_keys \<Longrightarrow> others (data_adopt k v d) = others d"
  by (auto simp: data_adopt_def schema_keys_def split: json.splits)

lemma others_adopt_key:
  "k \<in> set schema_keys \<Longrightarrow> others (adopt_key raw d k) = others d"
proof -
  assume k: "k \<in> set schema_keys"
  have "others (data_adopt k v d) = others d" for v
    using k by (rule others_data_adopt)
  then show ?thesis
    by (cases "dict_get raw k") (auto simp: adopt_key_def)
qed

lemma others_foldl_adopt:
  "set ks \<subseteq> set schema_keys \<Longrightarrow> others (foldl (adopt_key raw) d ks) = others d"
  by (induction ks arbitrary: d) (simp_all add: others_adopt_key)

lemma others_merge_meta [simp]: "others (merge_meta raw d) = others d"
  by (simp add: merge_meta_def split: option.splits json.splits)

lemma others_load_fields:
  "others d = [] \<Longrightarrow> others (load_fields raw d) = []"
  by (simp add: load_fields_def data_keys_def dict_keys_def others_foldl_adopt)

lemma isinstance_of_JNull: "isinstance_of v JNull \<Longrightarrow> v = JNull"
  by (cases v) simp_all

lemma no_profile_data_adopt:
  "no_profile d \<Longrightarrow> isinstance_of v (data_value d k) \<or> is_list v \<and> k = ''conversations'' \<Longrightarrow>
   no_profile (data_adopt k v d)"
proof -
  assume np: "no_profile d" and ty: "isinstance_of v (data_value d k) \<or> is_list v \<and> k = ''conversations''"
  consider (prof) "k \<in> set [''user_name'', ''country'', ''city'', ''language'']"
    | (other) "k \<notin> set [''user_name'', ''country'', ''city'', ''language'']" by blast
  then show ?thesis
  proof cases
    case prof
    with np ty have "v = JNull"
      by (auto simp: no_profile_def data_value_def opt_json_def dest: isinstance_of_JNull)
    with np prof show ?thesis
      by (auto simp: no_profile_def data_adopt_def scalar_of_def)
  next
    case other
    with np show ?thesis
      by (simp add: no_profile_def data_adopt_def split: json.splits)
  qed
qed

lemma no_profile_adopt_key:
  "no_profile d \<Longrightarrow> no_profile (adopt_key raw d k)"
  by (cases "dict_get raw k") (simp_all add: adopt_key_def no_profile_data_adopt)

lemma no_profile_foldl_adopt:
  "no_profile d \<Longrightarrow> no_profile (foldl (adopt_key raw) d ks)"
  by (induction ks arbitrary: d) (simp_all add: no_profile_adopt_key)

lemma no_profile_merge_meta [simp]: "no_profile (merge_meta raw d) = no_profile d"
  by (simp add: merge_meta_def no_profile_def split: option.splits json.splits)

lemma no_profile_load_fields:
  "no_profile d \<Longrightarrow> no_profile (load_fields raw d)"
  by (simp add: load_fields_def no_profile_foldl_adopt)

lemma load_or_init_memory_profile:
  assumes "no_profile (data s)" "others (data s) = []"
  shows "no_profile (data (load_or_init_memory now s)) \<and> others (data (load_or_init_memory now s)) = []"
proof (cases "disk s")
  case Missing
  with assms show ?thesis by (simp add: load_or_init_memory_def no_profile_def)
next
  case Unreadable
  with assms show ?thesis by (simp add: load_or_init_memory_def no_profile_def)
next
  case (Content raw)
  show ?thesis
  proof (cases raw)
    case (JDict r)
    with Content assms show ?thesis
      by (simp add: load_or_init_memory_def no_profile_load_fields others_load_fields)
  qed (use Content assms in \<open>simp_all add: load_or_init_memory_def no_profile_def\<close>)
qed

lemma AliChatbot_data:
  "\<exists>kb. data (AliChatbot n d w now em) = (data (load_or_init_memory now
       \<lparr> data = default_data, ctx = [], maxlen = n, embedding_model = None, faiss_index = None,
         disk = d, writable = w \<rparr>))\<lparr>flexipdf_knowledge := kb\<rparr>"
proof -
  let ?s1 = "load_or_init_memory now
       \<lparr> data = default_data, ctx = [], maxlen = n, embedding_model = None, faiss_index = None,
         disk = d, writable = w \<rparr>"
  define s2 where "s2 = (case em of
                  None \<Rightarrow> ?s1
                | Some f \<Rightarrow>
                    (case build_faiss_index (?s1\<lparr>embedding_model := Some f\<rparr>) of
                       Inr s \<Rightarrow> s
                     | Inl e \<Rightarrow> ?s1\<lparr>embedding_model := None, faiss_index := None\<rparr>))"
  have "data s2 = data ?s1"
  proof (cases em)
    case None
    then show ?thesis by (simp add: s2_def)
  next
    case (Some f)
    show ?thesis
    proof (cases "build_faiss_index (?s1\<lparr>embedding_model := Some f\<rparr>)")
      case (Inl e)
      with Some show ?thesis by (simp add: s2_def)
    next
      case (Inr s')
      from build_faiss_index_fields [OF Inr] have "data s' = data ?s1" by simp
      with Some Inr show ?thesis by (simp add: s2_def)
    qed
  qed
  moreover have "AliChatbot n d w now em = seed_flexipdf_knowledge s2"
    by (simp add: AliChatbot_def Let_def s2_def)
  ultimately show ?thesis by (auto simp: seed_flexipdf_knowledge_def)
qed

lemma AliChatbot_profile:
  "no_profile (data (AliChatbot n d w now em)) \<and> others (data (AliChatbot n d w now em)) = []"
proof -
  let ?s0 = "\<lparr> data = default_data, ctx = [], maxlen = n, embedding_model = None,
               faiss_index = None, disk = d, writable = w \<rparr>"
  have "no_profile (data ?s0)" "others (data ?s0) = []"
    by (simp_all add: no_profile_def default_data_def)
  then have "no_profile (data (load_or_init_memory now ?s0)) \<and>
             others (data (load_or_init_memory now ?s0)) = []"
    by (rule load_or_init_memory_profile)
  moreover obtain kb where "data (AliChatbot n d w now em) =
      (data (load_or_init_memory now ?s0))\<lparr>flexipdf_knowledge := kb\<rparr>"
    using AliChatbot_data by blast
  ultimately show ?thesis by (simp add: no_profile_def)
qed

lemma hobby_match: "first_search patterns ''My hobby is chess'' = Some (''hobby'', [(Suc 0, ''chess'')])"
  by code_simp

lemma hobby_captured: "capitalize (captured [(Suc 0, ''chess'')] (Suc 0)) = ''Chess''"
  by code_simp

lemma open_keys:
  "[k \<leftarrow> map snd patterns. k \<notin> set schema_keys] = [''favorite_color'', ''hobby'', ''likes'', ''age'']"
  by code_simp

lemma learn_hobby:
  "learn_structured_fact ''My hobby is chess'' s =
        (save_memory (s\<lparr>data := data_store ''hobby'' ''Chess'' (data s)\<rparr>),
         Some (structured_reply ''hobby'' ''Chess''))"
  by (simp add: learn_structured_fact_def hobby_match hobby_captured Let_def)

lemma data_value_store:
  "key \<in> set [''favorite_color'', ''hobby'', ''likes'', ''age''] \<Longrightarrow>
   data_value (data_store key v d) key = JStr v"
  by (auto simp: data_store_def data_value_def opt_json_def)

lemma data_keys_store:
  "key \<in> set [''favorite_color'', ''hobby'', ''likes'', ''age''] \<Longrightarrow>
   key \<in> set (data_keys (data_store key v d))"
  by (auto simp: data_store_def data_keys_def dict_keys_dict_set)

lemma data_scalar_store:
  "key \<in> set [''favorite_color'', ''hobby'', ''likes'', ''age''] \<Longrightarrow>
   data_scalar (data_store key v d) key = Some v"
  by (auto simp: data_store_def data_scalar_def)

lemma saved_open_key:
  "key \<in> set [''favorite_color'', ''hobby'', ''likes'', ''age''] \<Longrightarrow>
   (case to_json (data_store key v d) of
      JDict j \<Rightarrow> dict_get j key = Some (JStr v)
    | _ \<Rightarrow> False)"
  by (simp add: to_json_def dict_get_tabulate data_value_store data_keys_store del: set_simps)

lemma open_key_not_loaded:
  "key \<in> set [''favorite_color'', ''hobby'', ''likes'', ''age''] \<Longrightarrow>
   data_scalar (data (AliChatbot n d w now em)) key = None"
  using AliChatbot_profile [of n d w now em] by (auto simp: data_scalar_def dict_get_def)

text \<open>
  Claim C9. Whatever the durable record holds, the data of a chatbot as constructed
  has the keys of the default schema only. The keys of the structured extractor's
  table outside the schema are \<open>favorite_color\<close>, \<open>hobby\<close>, \<open>likes\<close> and \<open>age\<close>; the
  extractor stores such an attribute as a new top-level key and saves (as for \<open>My
  hobby is chess\<close>). For each of them, when the file can be written the saved record
  holds the attribute, and a chatbot constructed from that record does not.
\<close>

theorem open_attributes_lost_on_load:
  "data_keys (data (AliChatbot n d w now em)) = schema_keys
   \<and> [k \<leftarrow> map snd patterns. k \<notin> set schema_keys] = [''favorite_color'', ''hobby'', ''likes'', ''age'']
   \<and> learn_structured_fact ''My hobby is chess'' s =
        (save_memory (s\<lparr>data := data_store ''hobby'' ''Chess'' (data s)\<rparr>),
         Some (structured_reply ''hobby'' ''Chess''))
   \<and> (key \<in> set [''favorite_color'', ''hobby'', ''likes'', ''age''] \<and> writable s \<longrightarrow>
        data_scalar (data_store key v (data s)) key = Some v
        \<and> disk (save_memory (s\<lparr>data := data_store key v (data s)\<rparr>)) =
            Content (to_json (data_store key v (data s)))
        \<and> (case to_json (data_store key v (data s)) of
              JDict j \<Rightarrow> dict_get j key = Some (JStr v)
            | _ \<Rightarrow> False)
        \<and> data_scalar (data (AliChatbot n (disk (save_memory (s\<lparr>data := data_store key v (data s)\<rparr>)))
                                  w now em)) key = None)"
proof -
  have keys: "data_keys (data (AliChatbot n d w now em)) = schema_keys"
    using AliChatbot_profile [of n d w now em] by (simp add: data_keys_def dict_keys_def)
  have disk: "writable s \<Longrightarrow> disk (save_memory (s\<lparr>data := data_store key v (data s)\<rparr>)) =
            Content (to_json (data_store key v (data s)))"
    by (simp add: save_memory_def)
  show ?thesis
    using keys open_keys learn_hobby disk data_scalar_store saved_open_key open_key_not_loaded
    by blast
qed

theorem open_attributes_lost_on_load_witness:
  "''hobby'' \<in> set [''favorite_color'', ''hobby'', ''likes'', ''age'']
   \<and> writable \<lparr> data = default_data, ctx = [], maxlen = 20, embedding_model = None,
                faiss_index = None, disk = Missing, writable = True \<rparr>
   \<and> data_scalar (data_store ''hobby'' ''Chess'' default_data) ''hobby'' = Some ''Chess''
   \<and> (case to_json (data_store ''hobby'' ''Chess'' default_data) of
         JDict j \<Rightarrow> dict_get j ''hobby'' = Some (JStr ''Chess'')
       | _ \<Rightarrow> False)
   \<and> data_scalar (data (AliChatbot 20
         (disk (save_memory (\<lparr> data = default_data, ctx = [], maxlen = 20, embedding_model = None,
                faiss_index = None, disk = Missing, writable = True \<rparr>
                \<lparr>data := data_store ''hobby'' ''Chess'' default_data\<rparr>)))
         True ''2024-01-02T00:00:00'' None)) ''hobby'' = None"
proof -
  have k: "''hobby'' \<in> set [''favorite_color'', ''hobby'', ''likes'', ''age'']" by simp
  have w: "writable \<lparr> data = default_data, ctx = [], maxlen = 20, embedding_model = None,
                faiss_index = None, disk = Missing, writable = True \<rparr>" by simp
  show ?thesis
    using k w open_attributes_lost_on_load
      [of 20 Missing True "''2024-01-02T00:00:00''" None
        "\<lparr> data = default_data, ctx = [], maxlen = 20, embedding_model = None,
                faiss_index = None, disk = Missing, writable = True \<rparr>" "''hobby''" "''Chess''"]
    by (simp add: save_memory_def)
qed

lemma saved_name:
  "(case to_json (default_data\<lparr>user_name := Some ''Ali''\<rparr>) of
         JDict j \<Rightarrow> dict_get j ''user_name'' = Some (JStr ''Ali'')
       | _ \<Rightarrow> False)"
  by (simp add: to_json_def dict_get_def data_keys_def schema_keys_def data_value_def
                opt_json_def)

text \<open>
  Claim C1. Whatever the durable record holds, the four profile fields of a chatbot
  as constructed are \<open>None\<close>: the default of each is \<open>None\<close>, so only \<open>None\<close> has the type
  of the default. The record that \<open>save\<close> writes for a user named Ali holds the name,
  and the chatbot constructed from that record has no name.
\<close>

theorem load_drops_saved_profile:
  "user_name (data (AliChatbot n d w now em)) = None
   \<and> country (data (AliChatbot n d w now em)) = None
   \<and> city (data (AliChatbot n d w now em)) = None
   \<and> language (data (AliChatbot n d w now em)) = None
   \<and> disk (save_memory \<lparr> data = default_data\<lparr>user_name := Some ''Ali''\<rparr>, ctx = [], maxlen = 20,
                          embedding_model = None, faiss_index = None, disk = Missing,
                          writable = True \<rparr>)
       = Content (to_json (default_data\<lparr>user_name := Some ''Ali''\<rparr>))
   \<and> (case to_json (default_data\<lparr>user_name := Some ''Ali''\<rparr>) of
         JDict j \<Rightarrow> dict_get j ''user_name'' = Some (JStr ''Ali'')
       | _ \<Rightarrow> False)
   \<and> user_name (data (AliChatbot 20 (Content (to_json (default_data\<lparr>user_name := Some ''Ali''\<rparr>)))
                          True now None)) = None"
proof -
  have np: "no_profile (data (AliChatbot n' d' w' now' em'))" for n' d' w' now' em'
    using AliChatbot_profile [of n' d' w' now' em'] by simp
  have disk: "disk (save_memory \<lparr> data = default_data\<lparr>user_name := Some ''Ali''\<rparr>, ctx = [], maxlen = 20,
                          embedding_model = None, faiss_index = None, disk = Missing,
                          writable = True \<rparr>)
       = Content (to_json (default_data\<lparr>user_name := Some ''Ali''\<rparr>))"
    by (simp add: save_memory_def)
  show ?thesis
    using np [of n d w now em]
          np [of 20 "Content (to_json (default_data\<lparr>user_name := Some ''Ali''\<rparr>))" True now None]
          disk saved_name
    unfolding no_profile_def by blast
qed

section \<open>Properties of logging an exchange\<close>

lemma entry_ok_entry_json [simp]: "entry_ok (entry_json e)"
  by (simp add: entry_ok_def entry_json_def dict_get_def)

lemma user_texts_ok: "list_all entry_ok cs \<Longrightarrow> \<exists>ts. user_texts cs = Inr ts"
proof (induction cs)
  case Nil
  then show ?case by simp
next
  case (Cons c cs)
  then obtain ts where ts: "user_texts cs = Inr ts" by auto
  from Cons.prems obtain d where "c = JDict d"
    by (cases c) (simp_all add: entry_ok_def)
  with ts show ?case by simp
qed

lemma build_faiss_index_ok:
  "list_all entry_ok (conversations (data s)) \<Longrightarrow> \<exists>s'. build_faiss_index s = Inr s'"
  using user_texts_ok [of "conversations (data s)"] by (auto simp: build_faiss_index_def)

lemma remember_conversation_data:
  "data (fst (remember_conversation now u a s)) =
     (data s)\<lparr>conversations := conversations (data s) @ [entry_json \<lparr> user = u, ai = a, time = now \<rparr>]\<rparr>"
  by (auto simp: remember_conversation_def Let_def split: sum.splits dest: build_faiss_index_fields)

lemma remember_conversation_embedding:
  "embedding_model (fst (remember_conversation now u a s)) = embedding_model s"
  by (auto simp: remember_conversation_def Let_def split: sum.splits dest: build_faiss_index_fields)

lemma remember_conversation_ok:
  assumes "list_all entry_ok (conversations (data s))"
  shows "snd (remember_conversation now u a s) = None"
proof -
  let ?s1 = "save_memory
                 (s\<lparr>data := (data s)\<lparr>conversations := conversations (data s) @
                                   [entry_json \<lparr> user = u, ai = a, time = now \<rparr>]\<rparr>,
                    ctx := deque_append (maxlen s) (ctx s) \<lparr> user = u, ai = a, time = now \<rparr>\<rparr>)"
  have "list_all entry_ok (conversations (data ?s1))" using assms by simp
  then obtain s' where "build_faiss_index ?s1 = Inr s'"
    using build_faiss_index_ok by blast
  then show ?thesis by (simp add: remember_conversation_def Let_def)
qed

lemma log_return_state: "fst (log_return now text reply s) = fst (remember_conversation now text reply s)"
  by (simp add: log_return_def split: prod.splits option.splits)

lemma log_return_reply:
  "snd (log_return now text reply s) =
     (case snd (remember_conversation now text reply s) of None \<Rightarrow> Inr reply | Some e \<Rightarrow> Inl e)"
  by (simp add: log_return_def split: prod.splits option.splits)

lemma log_return_ok:
  "list_all entry_ok (conversations (data s)) \<Longrightarrow> snd (log_return now text reply s) = Inr reply"
  by (simp add: log_return_reply remember_conversation_ok)


lemma log_return_data:
  "data (fst (log_return now text reply s)) =
     (data s)\<lparr>conversations := conversations (data s) @
                  [entry_json \<lparr> user = text, ai = reply, time = now \<rparr>]\<rparr>"
  by (simp add: log_return_state remember_conversation_data)


lemma group_Cons [simp]: "group ((n, t) # g) m = (if n = m then t else group g m)"
  by (simp add: group_def)

section \<open>A question that the guard lets through\<close>

lemma where_strip: "strip ''where is my phone'' = ''where is my phone''"
  by code_simp

lemma where_patterns: "first_search patterns ''where is my phone'' = None"
  by code_simp

lemma where_rel_patterns: "first_search rel_patterns ''where is my phone'' = None"
  by code_simp

lemma where_learn: "re_search True learn_pattern ''where is my phone'' = None"
  by code_simp

lemma where_teach: "re_search True teach_pattern ''where is my phone'' = None"
  by code_simp

lemma where_guard: "re_match True question_guard ''where is my phone'' = None"
  by code_simp

lemma where_fact:
  "re_match True fact_pattern ''where is my phone'' = Some [(2, ''my phone''), (Suc 0, ''where'')]"
  by code_simp

lemma where_subject: "lower (rstrip_chars ''.!?'' (strip ''where'')) = ''where''"
  by code_simp

lemma where_meaning: "rstrip_chars ''.!?'' (strip ''my phone'') = ''my phone''"
  by code_simp

lemma where_reply:
  "fact_reply ''where'' ''my phone'' =
     ''Got it! I'' @ utf8 0x2019 @ ''ve learned that **where** is **my phone** '' @ utf8 0x1F9E0"
  by (simp add: fact_reply_def)

lemma where_learned:
  "learn_fact_statement ''where is my phone'' s =
   (save_memory (s\<lparr>data := (data s)\<lparr>facts := dict_set (facts (data s)) ''where'' (JStr ''my phone'')\<rparr>\<rparr>),
    Some (fact_reply ''where'' ''my phone''))"
  by (simp add: learn_fact_statement_def where_guard where_fact captured_def where_subject
                where_meaning Let_def)

lemma where_response:
  "get_response now ''where is my phone'' s =
   log_return now ''where is my phone'' (fact_reply ''where'' ''my phone'')
     (save_memory (s\<lparr>data := (data s)\<lparr>facts := dict_set (facts (data s)) ''where'' (JStr ''my phone'')\<rparr>\<rparr>))"
  by (simp add: get_response_def where_strip learn_structured_fact_def where_patterns
                where_rel_patterns learn_flexipdf_knowledge_def where_learn where_teach
                where_learned Let_def)

text \<open>
  Claim C10. The guard of the generic fact extractor does not match \<open>where is my
  phone\<close>. In every state \<open>get_response\<close> on that line stores the fact \<open>where\<close> with the
  definition \<open>my phone\<close> and ends by logging and returning the confirmation of a
  learned fact, \<open>Got it! I've learned that **where** is **my phone**\<close> with the brain
  sign; it is returned whenever the log holds well-shaped entries.
\<close>

theorem where_question_learned_as_fact:
  "re_match True question_guard ''where is my phone'' = None
   \<and> get_response now ''where is my phone'' s =
       log_return now ''where is my phone''
         (''Got it! I'' @ utf8 0x2019 @ ''ve learned that **where** is **my phone** '' @ utf8 0x1F9E0)
         (save_memory (s\<lparr>data := (data s)\<lparr>facts :=
                          dict_set (facts (data s)) ''where'' (JStr ''my phone'')\<rparr>\<rparr>))
   \<and> dict_get (facts (data (fst (get_response now ''where is my phone'' s)))) ''where'' =
       Some (JStr ''my phone'')
   \<and> (list_all entry_ok (conversations (data s)) \<longrightarrow>
        snd (get_response now ''where is my phone'' s) =
          Inr (''Got it! I'' @ utf8 0x2019 @ ''ve learned that **where** is **my phone** '' @
               utf8 0x1F9E0))"
  by (simp add: where_guard where_response where_reply log_return_data log_return_ok)

theorem where_question_learned_as_fact_witness:
  "list_all entry_ok (conversations (data
      \<lparr> data = default_data, ctx = [], maxlen = 20, embedding_model = None,
        faiss_index = None, disk = Missing, writable = True \<rparr>))
   \<and> snd (get_response ''2024-01-01 10:00:00'' ''where is my phone''
        \<lparr> data = default_data, ctx = [], maxlen = 20, embedding_model = None,
          faiss_index = None, disk = Missing, writable = True \<rparr>)
     = Inr (''Got it! I'' @ utf8 0x2019 @ ''ve learned that **where** is **my phone** '' @
            utf8 0x1F9E0)"
proof -
  have h: "list_all entry_ok (conversations (data
      \<lparr> data = default_data, ctx = [], maxlen = 20, embedding_model = None,
        faiss_index = None, disk = Missing, writable = True \<rparr>))"
    by (simp add: default_data_def)
  show ?thesis
    using h where_question_learned_as_fact
      [of "''2024-01-01 10:00:00''"
          "\<lparr> data = default_data, ctx = [], maxlen = 20, embedding_model = None,
             faiss_index = None, disk = Missing, writable = True \<rparr>"]
    by blast
qed

section \<open>Properties of the character classes\<close>

lemma lower_char_cases: "lower_char c = c \<or> (is_upper c \<and> is_lower (lower_char c))"
proof (cases "map_of (zip upper_letters lower_letters) c")
  case None
  then show ?thesis by (simp add: lower_char_def)
next
  case (Some l)
  then have "(c, l) \<in> set (zip upper_letters lower_letters)" by (rule map_of_SomeD)
  then have "c \<in> set upper_letters" "l \<in> set lower_letters"
    by (auto dest: set_zip_leftD set_zip_rightD)
  with Some show ?thesis by (simp add: lower_char_def is_upper_def is_lower_def)
qed

lemma upper_char_cases: "upper_char c = c \<or> (is_lower c \<and> is_upper (upper_char c))"
proof (cases "map_of (zip lower_letters upper_letters) c")
  case None
  then show ?thesis by (simp add: upper_char_def)
next
  case (Some u)
  then have "(c, u) \<in> set (zip lower_letters upper_letters)" by (rule map_of_SomeD)
  then have "c \<in> set lower_letters" "u \<in> set upper_letters"
    by (auto dest: set_zip_leftD set_zip_rightD)
  with Some show ?thesis by (simp add: upper_char_def is_upper_def is_lower_def)
qed

lemma letter_not_space: "is_alpha c \<Longrightarrow> \<not> is_space c"
  by (auto simp: is_alpha_def is_upper_def is_lower_def is_space_def upper_letters_def
                 lower_letters_def)

lemma is_lower_lower_char: "is_lower (lower_char c) \<Longrightarrow> is_alpha c"
  using lower_char_cases [of c] by (auto simp: is_alpha_def)

lemma cls_ok_space [simp]: "cls_ok ic is_space c = is_space c"
  using lower_char_cases [of c] upper_char_cases [of c] letter_not_space [of "lower_char c"]
        letter_not_space [of "upper_char c"]
  by (auto simp: cls_ok_def is_alpha_def)

section \<open>Properties of matching\<close>

lemma star_greedy_here: "(p, s) \<in> set (star_greedy P p s)"
  by (cases s) simp_all

lemma star_greedy_run:
  "list_all P ws \<Longrightarrow>
   (if ws = [] then p else Some (last ws), rest) \<in> set (star_greedy P p (ws @ rest))"
proof (induction ws arbitrary: p)
  case Nil
  then show ?case by (simp add: star_greedy_here)
next
  case (Cons c ws)
  then have "(if ws = [] then Some c else Some (last ws), rest)
               \<in> set (star_greedy P (Some c) (ws @ rest))"
    by simp
  with Cons.prems show ?case by (cases "ws = []") simp_all
qed

lemma lit_match_prefix:
  "map lower_char l = map lower_char w \<Longrightarrow>
   lit_match True l p (w @ rest) = Some (if w = [] then p else Some (last w), rest)"
proof (induction l arbitrary: w p)
  case Nil
  then show ?case by simp
next
  case (Cons a l)
  then obtain c w' where w: "w = c # w'" by (cases w) auto
  with Cons.prems have "lower_char a = lower_char c" "map lower_char l = map lower_char w'"
    by simp_all
  with Cons.IH [of w' "Some c"] w show ?case by (simp add: chr_eq_def)
qed

lemma question_words_lower:
  "l \<in> set [''what'', ''who'', ''why'', ''how''] \<Longrightarrow> lower l = l \<and> l \<noteq> [] \<and> is_lower (last l)"
  by (auto simp: lower_def lower_char_def upper_letters_def lower_letters_def is_lower_def)

lemma question_guard_alternatives:
  "l \<in> set [''what'', ''who'', ''why'', ''how''] \<Longrightarrow>
   set (run True (Lit l) c)
     \<subseteq> set (run True (Alt (Lit ''what'') (Alt (Lit ''who'') (Alt (Lit ''why'') (Lit ''how'')))) c)"
  by auto

lemma question_guard_matches:
  assumes ws: "list_all is_space ws"
    and w: "lower w \<in> set [''what'', ''who'', ''why'', ''how'']"
    and rest: "\<not> word_after rest"
  shows "re_match True question_guard (ws @ w @ rest) \<noteq> None"
proof -
  define l where "l = lower w"
  define p1 where "p1 = (if ws = [] then None else Some (last ws))"
  define alts where "alts = Alt (Lit ''what'') (Alt (Lit ''who'') (Alt (Lit ''why'') (Lit ''how'')))"
  from w have l: "l \<in> set [''what'', ''who'', ''why'', ''how'']" by (simp add: l_def)
  then have ll: "lower l = l" "l \<noteq> []" "is_lower (last l)"
    using question_words_lower by blast+
  have wne: "w \<noteq> []" using ll(2) by (auto simp: l_def lower_def)
  have "lower_char (last w) = last l" using wne by (simp add: l_def lower_def last_map)
  with ll(3) have word: "is_word (last w)"
    using is_lower_lower_char [of "last w"] by (simp add: is_word_def)
  have step1: "(p1, w @ rest, []) \<in> set (run True (Star is_space) (None, ws @ w @ rest, []))"
  proof -
    have "list_all (cls_ok True is_space) ws" using ws by (simp add: list_all_iff)
    from star_greedy_run [OF this, of None "w @ rest"]
    show ?thesis by (force simp: p1_def)
  qed
  have "map lower_char l = map lower_char w" using ll(1) by (simp add: l_def lower_def)
  then have "lit_match True l p1 (w @ rest) = Some (Some (last w), rest)"
    using lit_match_prefix [of l w p1 rest] wne by simp
  then have "(Some (last w), rest, []) \<in> set (run True (Lit l) (p1, w @ rest, []))"
    by simp
  with question_guard_alternatives [OF l]
  have "(Some (last w), rest, []) \<in> set (run True alts (p1, w @ rest, []))"
    unfolding alts_def by blast
  then have step2: "(Some (last w), rest, [(1, w)]) \<in> set (run True (Grp 1 alts) (p1, w @ rest, []))"
    by force
  have step3: "(Some (last w), rest, [(1, w)])
                 \<in> set (run True Wordb (Some (last w), rest, [(1, w)]))"
    using word rest by (simp add: at_boundary_def word_before_def)
  have "(Some (last w), rest, [(1, w)]) \<in> set (run True question_guard (None, ws @ w @ rest, []))"
    unfolding question_guard_def alts_def [symmetric]
    using step1 step2 step3 by (simp del: run.simps(7,12,3) add: run.simps(5)) blast
  then show ?thesis
    by (auto simp: re_match_def split: list.splits)
qed

text \<open>
  Claim C4. Take a line made of white space, then a word that is \<open>what\<close>, \<open>who\<close>,
  \<open>why\<close> or \<open>how\<close> in any mix of cases, then either nothing or text whose first
  character is an ASCII character that is no word character; what follows that
  character is free. The generic fact extractor returns \<open>None\<close> on the line and leaves
  the state, so the fact table, as it was, also when the line has the shape of a
  subject, \<open>is\<close> and a definition.
\<close>

theorem question_words_never_learned:
  assumes "list_all is_space ws"
    and "lower w \<in> set [''what'', ''who'', ''why'', ''how'']"
    and "rest = [] \<or> ascii_char (hd rest) \<and> \<not> is_word (hd rest)"
  shows "learn_fact_statement (ws @ w @ rest) s = (s, None)"
proof -
  from assms(3) have "\<not> word_after rest"
    by (cases rest) (auto simp: word_after_def)
  from question_guard_matches [OF assms(1,2) this]
  show ?thesis by (simp add: learn_fact_statement_def)
qed

theorem question_words_never_learned_witness:
  "list_all is_space ''  ''
   \<and> lower ''What'' \<in> set [''what'', ''who'', ''why'', ''how'']
   \<and> ascii_char (hd '' is caf'') \<and> \<not> is_word (hd '' is caf'')
   \<and> re_match True fact_pattern (''  '' @ ''What'' @ ('' is caf'' @ [CHR 0xC3, CHR 0xA9])) \<noteq> None
   \<and> learn_fact_statement (''  '' @ ''What'' @ ('' is caf'' @ [CHR 0xC3, CHR 0xA9]))
        \<lparr> data = default_data, ctx = [], maxlen = 20, embedding_model = None,
          faiss_index = None, disk = Missing, writable = True \<rparr>
      = (\<lparr> data = default_data, ctx = [], maxlen = 20, embedding_model = None,
           faiss_index = None, disk = Missing, writable = True \<rparr>, None)"
proof -
  have h2: "list_all is_space ''  ''" by code_simp
  have h3: "lower ''What'' \<in> set [''what'', ''who'', ''why'', ''how'']" by code_simp
  have h4: "ascii_char (hd '' is caf'') \<and> \<not> is_word (hd '' is caf'')" by code_simp
  have h4': "'' is caf'' @ [CHR 0xC3, CHR 0xA9] = [] \<or>
             ascii_char (hd ('' is caf'' @ [CHR 0xC3, CHR 0xA9])) \<and>
             \<not> is_word (hd ('' is caf'' @ [CHR 0xC3, CHR 0xA9]))"
    using h4 by simp
  have h5: "re_match True fact_pattern (''  '' @ ''What'' @ ('' is caf'' @ [CHR 0xC3, CHR 0xA9])) \<noteq> None"
    by code_simp
  show ?thesis
    using h2 h3 h4 h5 question_words_never_learned [OF h2 h3 h4'] by blast
qed

section \<open>Properties of the phrase tables\<close>

declare contains.simps [simp del]

lemma personal_scan_filter:
  "personal_scan m d low = personal_scan (filter (\<lambda>pk. contains (fst pk) low) m) d low"
  by (induction m d low rule: personal_scan.induct) simp_all

lemma help_scan_filter:
  "help_scan m kb low = help_scan (filter (\<lambda>pk. contains (fst pk) low) m) kb low"
  by (induction m kb low rule: help_scan.induct) (simp_all split: option.splits)

lemma help_scan_empty [simp]: "help_scan m [] low = None"
  by (induction m "[] :: json dict" low rule: help_scan.induct) (simp_all add: dict_get_def)

section \<open>The line \<open>split pdf\<close>\<close>

lemma split_pdf_strip: "strip ''split pdf'' = ''split pdf''"
  by code_simp

lemma split_pdf_lower: "lower ''split pdf'' = ''split pdf''"
  by code_simp

lemma split_pdf_patterns: "first_search patterns ''split pdf'' = None"
  by code_simp

lemma split_pdf_rel_patterns: "first_search rel_patterns ''split pdf'' = None"
  by code_simp

lemma split_pdf_learn: "re_search True learn_pattern ''split pdf'' = None"
  by code_simp

lemma split_pdf_teach: "re_search True teach_pattern ''split pdf'' = None"
  by code_simp

lemma split_pdf_guard: "re_match True question_guard ''split pdf'' = None"
  by code_simp

lemma split_pdf_fact: "re_match True fact_pattern ''split pdf'' = None"
  by code_simp

lemma split_pdf_query: "re_match True query_pattern ''split pdf'' = None"
  by code_simp

lemma split_pdf_who: "re_search True who_pattern ''split pdf'' = None"
  by code_simp

lemma split_pdf_q_map: "filter (\<lambda>pk. contains (fst pk) ''split pdf'') q_map = []"
  by code_simp

lemma split_pdf_cues: "list_ex (\<lambda>tok. contains tok ''split pdf'') time_cues = False"
  by code_simp

lemma split_pdf_told: "re_search True told_pattern ''split pdf'' = None"
  by code_simp

lemma split_pdf_help_map:
  "filter (\<lambda>pk. contains (fst pk) ''split pdf'') help_map = [(''split pdf'', ''split_pdf'')]"
  by code_simp

lemma split_pdf_contains: "contains ''split pdf'' ''split pdf''"
  by code_simp

lemma split_pdf_mood: "mood_reply ''split pdf'' = None"
  by code_simp

lemma split_pdf_greeting: "re_match True greeting_pattern ''split pdf'' = None"
  by code_simp

lemma split_pdf_topic: "re_match True topic_pattern ''split pdf'' = None"
  by code_simp

lemma split_pdf_extractors:
  "learn_structured_fact ''split pdf'' s = (s, None)"
  "learn_flexipdf_knowledge ''split pdf'' s = (s, None)"
  "learn_fact_statement ''split pdf'' s = (s, None)"
  by (simp_all add: learn_structured_fact_def split_pdf_patterns split_pdf_rel_patterns
                    learn_flexipdf_knowledge_def split_pdf_learn split_pdf_teach
                    learn_fact_statement_def split_pdf_guard split_pdf_fact)

lemma split_pdf_help:
  "help_scan help_map kb ''split pdf'' =
     (case dict_get kb ''split_pdf'' of
        Some answer \<Rightarrow> if truthy answer then Some (help_reply answer) else None
      | None \<Rightarrow> None)"
proof -
  have "help_scan help_map kb ''split pdf'' = help_scan [(''split pdf'', ''split_pdf'')] kb ''split pdf''"
    by (simp only: help_scan_filter [of help_map] split_pdf_help_map)
  then show ?thesis
    by (simp add: split_pdf_contains split: option.splits)
qed

lemma split_pdf_resolvers:
  "answer_fact_query ''split pdf'' s = None"
  "answer_personal_query ''split pdf'' s = None"
  "contextual_reference ''split pdf'' s = Inr None"
proof -
  show "answer_fact_query ''split pdf'' s = None"
    by (simp add: answer_fact_query_def split_pdf_query)
  show "answer_personal_query ''split pdf'' s = None"
    by (simp only: answer_personal_query_def split_pdf_lower personal_scan_filter [of q_map]
                   split_pdf_q_map personal_scan.simps)
  show "contextual_reference ''split pdf'' s = Inr None"
    by (simp add: contextual_reference_def split_pdf_lower split_pdf_cues split_pdf_told)
qed

lemma split_pdf_small_talk:
  "small_talk now ''split pdf'' s =
     (case help_scan help_map (flexipdf_knowledge (data s)) ''split pdf'' of
        Some resp \<Rightarrow> log_return now ''split pdf'' resp s
      | None \<Rightarrow> log_return now ''split pdf'' (friendly_fallback ''split pdf'' s) s)"
  by (simp add: small_talk_def split_pdf_lower split_pdf_mood split_pdf_greeting split_pdf_topic
                Let_def split: option.splits)

lemma split_pdf_response:
  "get_response now ''split pdf'' s =
     (case answer_relationship_query ''split pdf'' s of
        Some rel_ans \<Rightarrow> log_return now ''split pdf'' rel_ans s
      | None \<Rightarrow>
          (case help_scan help_map (flexipdf_knowledge (data s)) ''split pdf'' of
             Some resp \<Rightarrow> log_return now ''split pdf'' resp s
           | None \<Rightarrow> log_return now ''split pdf'' (friendly_fallback ''split pdf'' s) s))"
  by (simp add: get_response_def split_pdf_strip split_pdf_extractors answer_queries_def
                split_pdf_resolvers split_pdf_small_talk Let_def split: option.splits)

lemma no_relationships_no_answer:
  "relationships (data s) = [] \<Longrightarrow> re_search True who_pattern text = None \<Longrightarrow>
   answer_relationship_query text s = None"
  by (simp add: answer_relationship_query_def dict_keys_def)

section \<open>The knowledge base after a reset and after construction\<close>

lemma reset_memory_data:
  "data (fst (reset_memory now s)) = default_data\<lparr>meta := [(''created_at'', JStr now)]\<rparr>"
  by (simp add: reset_memory_state)

lemma seed_keys:
  "set (dict_keys (foldl seed_one kb kvs)) = set (dict_keys kb) \<union> set (dict_keys kvs)"
proof (induction kvs arbitrary: kb)
  case Nil
  then show ?case by (simp add: dict_keys_def)
next
  case (Cons kv kvs)
  have "set (dict_keys (seed_one kb kv)) = insert (fst kv) (set (dict_keys kb))"
    by (auto simp: seed_one_def dict_keys_dict_set)
  with Cons.IH [of "seed_one kb kv"] show ?case by (auto simp: dict_keys_def)
qed

lemma AliChatbot_seeded: "\<exists>s2. AliChatbot n d w now em = seed_flexipdf_knowledge s2"
  unfolding AliChatbot_def Let_def by (rule exI) (rule refl)

lemma AliChatbot_knowledge_keys:
  "set (dict_keys seed_defaults) \<subseteq> set (dict_keys (flexipdf_knowledge (data (AliChatbot n d w now em))))"
proof -
  obtain s2 where "AliChatbot n d w now em = seed_flexipdf_knowledge s2"
    using AliChatbot_seeded by blast
  then show ?thesis
    by (simp add: seed_flexipdf_knowledge_def seed_keys)
qed

text \<open>
  Claim C8. After a reset the knowledge base is empty: no key has an entry, no help
  phrase finds an answer, and the line \<open>split pdf\<close> gets the fallback reply. A chatbot
  as constructed, whatever the durable record holds, has an entry for every default
  key: the defaults are seeded by the constructor and not by the reset.
\<close>

theorem reset_leaves_knowledge_base_empty:
  "flexipdf_knowledge (data (fst (reset_memory now s))) = []
   \<and> dict_get (flexipdf_knowledge (data (fst (reset_memory now s)))) key = None
   \<and> help_scan help_map (flexipdf_knowledge (data (fst (reset_memory now s)))) low = None
   \<and> snd (get_response t ''split pdf'' (fst (reset_memory now s))) =
       Inr (''Hmm '' @ utf8 0x1F914 @ '' interesting, friend. Tell me more about that.'')
   \<and> set (dict_keys seed_defaults)
       \<subseteq> set (dict_keys (flexipdf_knowledge (data (AliChatbot n d w t' em))))"
proof -
  let ?s = "fst (reset_memory now s)"
  have d: "data ?s = default_data\<lparr>meta := [(''created_at'', JStr now)]\<rparr>"
    by (rule reset_memory_data)
  have kb: "flexipdf_knowledge (data ?s) = []" by (simp add: d default_data_def)
  have rel: "answer_relationship_query ''split pdf'' ?s = None"
    by (rule no_relationships_no_answer) (simp_all add: d default_data_def split_pdf_who)
  have ok: "list_all entry_ok (conversations (data ?s))" by (simp add: d default_data_def)
  have "get_response t ''split pdf'' ?s =
          log_return t ''split pdf'' (friendly_fallback ''split pdf'' ?s) ?s"
    by (simp add: split_pdf_response rel kb)
  moreover have "friendly_fallback ''split pdf'' ?s =
          ''Hmm '' @ utf8 0x1F914 @ '' interesting, friend. Tell me more about that.''"
    by (simp add: friendly_fallback_def name_or_friend_def d default_data_def)
  ultimately have "snd (get_response t ''split pdf'' ?s) =
       Inr (''Hmm '' @ utf8 0x1F914 @ '' interesting, friend. Tell me more about that.'')"
    using log_return_ok [OF ok] by simp
  then show ?thesis
    using kb AliChatbot_knowledge_keys [of n d w t' em] by (simp add: dict_get_def)
qed

section \<open>The teaching command\<close>

lemma teach_strip:
  "strip ''Ali learn 'pdf split' means divide PDF into multiple files'' =
     ''Ali learn 'pdf split' means divide PDF into multiple files''"
  by code_simp

lemma teach_patterns:
  "first_search patterns ''Ali learn 'pdf split' means divide PDF into multiple files'' = None"
  by code_simp

lemma teach_rel_patterns:
  "first_search rel_patterns ''Ali learn 'pdf split' means divide PDF into multiple files'' = None"
  by code_simp

lemma teach_learn:
  "re_search True learn_pattern ''Ali learn 'pdf split' means divide PDF into multiple files'' =
     Some [(2, ''divide PDF into multiple files''), (Suc 0, ''pdf split'')]"
  by code_simp

lemma teach_key: "replace_char CHR '' '' CHR ''_'' (lower (strip ''pdf split'')) = ''pdf_split''"
  by code_simp

lemma teach_key_shown: "replace_char CHR ''_'' CHR '' '' ''pdf_split'' = ''pdf split''"
  by code_simp

lemma teach_explanation:
  "rstrip_chars ''.!?'' (strip ''divide PDF into multiple files'') = ''divide PDF into multiple files''"
  by code_simp

lemma teach_response:
  "get_response now ''Ali learn 'pdf split' means divide PDF into multiple files'' s =
     log_return now ''Ali learn 'pdf split' means divide PDF into multiple files''
       (''Nice! I learned that **pdf split** means: divide PDF into multiple files '' @ utf8 0x2705)
       (teach_knowledge ''pdf_split'' ''divide PDF into multiple files'' s)"
  by (simp add: get_response_def teach_strip learn_structured_fact_def teach_patterns
                teach_rel_patterns learn_flexipdf_knowledge_def teach_learn knowledge_key_def
                teach_key teach_key_shown captured_def teach_explanation Let_def)

lemma teach_knowledge_base:
  "flexipdf_knowledge
     (data (fst (get_response now ''Ali learn 'pdf split' means divide PDF into multiple files'' s))) =
   dict_set (flexipdf_knowledge (data s)) ''pdf_split'' (JStr ''divide PDF into multiple files'')"
  by (simp add: teach_response log_return_data teach_knowledge_def)

lemma fresh_data:
  "data (AliChatbot n Missing w t0 em) =
     default_data\<lparr>meta := [(''created_at'', JStr t0)],
                   flexipdf_knowledge := foldl seed_one [] seed_defaults\<rparr>"
  by (cases em)
     (simp_all add: AliChatbot_def Let_def load_or_init_memory_def build_faiss_index_def
                    seed_flexipdf_knowledge_def default_data_def)

lemma seeded_split_pdf:
  "dict_get (foldl seed_one [] seed_defaults) ''split_pdf'' =
     Some (JStr ''Split a PDF into multiple smaller PDF files by page ranges.'')"
  by (simp add: seed_defaults_def seed_one_def dict_keys_def dict_get_def)

lemma taught_data:
  "data (fst (get_response t1 ''Ali learn 'pdf split' means divide PDF into multiple files''
                (AliChatbot n Missing w t0 em))) =
     default_data\<lparr>meta := [(''created_at'', JStr t0)],
                   flexipdf_knowledge :=
                     dict_set (foldl seed_one [] seed_defaults) ''pdf_split''
                       (JStr ''divide PDF into multiple files''),
                   conversations :=
                     [entry_json \<lparr> user = ''Ali learn 'pdf split' means divide PDF into multiple files'',
                                   ai = ''Nice! I learned that **pdf split** means: divide PDF into multiple files '' @ utf8 0x2705,
                                   time = t1 \<rparr>]\<rparr>"
  by (simp add: teach_response log_return_data teach_knowledge_def fresh_data default_data_def)

lemma fresh_split_pdf:
  "snd (get_response t2 ''split pdf''
          (fst (get_response t1 ''Ali learn 'pdf split' means divide PDF into multiple files''
                  (AliChatbot n Missing w t0 em)))) =
   Inr ''Split a PDF into multiple smaller PDF files by page ranges. If you'd like, I can guide you step-by-step.''"
proof -
  let ?s1 = "fst (get_response t1 ''Ali learn 'pdf split' means divide PDF into multiple files''
                  (AliChatbot n Missing w t0 em))"
  have rel: "answer_relationship_query ''split pdf'' ?s1 = None"
    by (rule no_relationships_no_answer) (simp_all add: taught_data default_data_def split_pdf_who)
  have ok: "list_all entry_ok (conversations (data ?s1))" by (simp add: taught_data)
  have "help_scan help_map (flexipdf_knowledge (data ?s1)) ''split pdf'' =
          Some (help_reply (JStr ''Split a PDF into multiple smaller PDF files by page ranges.''))"
    by (simp add: split_pdf_help taught_data seeded_split_pdf)
  then have "get_response t2 ''split pdf'' ?s1 =
          log_return t2 ''split pdf''
            (help_reply (JStr ''Split a PDF into multiple smaller PDF files by page ranges.'')) ?s1"
    by (simp add: split_pdf_response rel)
  then show ?thesis
    using log_return_ok [OF ok] by (simp add: help_reply_def py_str_def)
qed

lemma what_is_strip: "strip ''what is pdf_split'' = ''what is pdf_split''"
  by code_simp

lemma what_is_patterns: "first_search patterns ''what is pdf_split'' = None"
  by code_simp

lemma what_is_rel_patterns: "first_search rel_patterns ''what is pdf_split'' = None"
  by code_simp

lemma what_is_learn: "re_search True learn_pattern ''what is pdf_split'' = None"
  by code_simp

lemma what_is_teach: "re_search True teach_pattern ''what is pdf_split'' = None"
  by code_simp

lemma what_is_guard: "re_match True question_guard ''what is pdf_split'' = Some [(Suc 0, ''what'')]"
  by code_simp

lemma what_is_who: "re_search True who_pattern ''what is pdf_split'' = None"
  by code_simp

lemma what_is_query:
  "re_match True query_pattern ''what is pdf_split'' = Some [(2, ''pdf_split''), (Suc 0, ''what is'')]"
  by code_simp

lemma what_is_term: "lower (rstrip_chars ''.!?'' (strip ''pdf_split'')) = ''pdf_split''"
  by code_simp

lemma what_is_shown: "capitalize (replace_char CHR ''_'' CHR '' '' ''pdf_split'') = ''Pdf split''"
  by code_simp

lemma what_is_response:
  "answer_relationship_query ''what is pdf_split'' s = None \<Longrightarrow>
   answer_fact_query ''what is pdf_split'' s = Some r \<Longrightarrow>
   get_response now ''what is pdf_split'' s = log_return now ''what is pdf_split'' r s"
  by (simp add: get_response_def what_is_strip learn_structured_fact_def what_is_patterns
                what_is_rel_patterns learn_flexipdf_knowledge_def what_is_learn what_is_teach
                learn_fact_statement_def what_is_guard answer_queries_def Let_def)

lemma fresh_what_is_pdf_split:
  "snd (get_response t2 ''what is pdf_split''
          (fst (get_response t1 ''Ali learn 'pdf split' means divide PDF into multiple files''
                  (AliChatbot n Missing w t0 em)))) =
   Inr ''Pdf split: divide PDF into multiple files''"
proof -
  let ?s1 = "fst (get_response t1 ''Ali learn 'pdf split' means divide PDF into multiple files''
                  (AliChatbot n Missing w t0 em))"
  have rel: "answer_relationship_query ''what is pdf_split'' ?s1 = None"
    by (rule no_relationships_no_answer) (simp_all add: taught_data default_data_def what_is_who)
  have ok: "list_all entry_ok (conversations (data ?s1))" by (simp add: taught_data)
  have "answer_fact_query ''what is pdf_split'' ?s1 = Some ''Pdf split: divide PDF into multiple files''"
    by (simp add: answer_fact_query_def what_is_query captured_def what_is_term what_is_shown
                  taught_data default_data_def py_str_def Let_def)
  with rel have "get_response t2 ''what is pdf_split'' ?s1 =
          log_return t2 ''what is pdf_split'' ''Pdf split: divide PDF into multiple files'' ?s1"
    by (rule what_is_response)
  then show ?thesis
    using log_return_ok [OF ok] by simp
qed

lemma taught_not_in_seeded:
  "\<not> contains ''divide PDF into multiple files''
       ''Split a PDF into multiple smaller PDF files by page ranges. If you'd like, I can guide you step-by-step.''"
  by code_simp

text \<open>
  Claim C2, amended. After the teaching command the knowledge base maps \<open>pdf_split\<close> to
  the explanation and holds under \<open>split_pdf\<close> what it held before. The help phrase
  \<open>split pdf\<close> is looked up under \<open>split_pdf\<close>, so its answer is the one from before
  the teaching. On a chatbot constructed with no durable record, \<open>split pdf\<close> after
  the teaching gets the seeded text, and \<open>what is pdf_split\<close>, which names the key
  stored, gets the explanation taught.
\<close>

theorem teaching_stores_under_pdf_split:
  "dict_get (flexipdf_knowledge
       (data (fst (get_response now ''Ali learn 'pdf split' means divide PDF into multiple files'' s))))
     ''pdf_split'' = Some (JStr ''divide PDF into multiple files'')
   \<and> dict_get (flexipdf_knowledge
       (data (fst (get_response now ''Ali learn 'pdf split' means divide PDF into multiple files'' s))))
     ''split_pdf'' = dict_get (flexipdf_knowledge (data s)) ''split_pdf''
   \<and> help_scan help_map (flexipdf_knowledge
       (data (fst (get_response now ''Ali learn 'pdf split' means divide PDF into multiple files'' s))))
     ''split pdf'' = help_scan help_map (flexipdf_knowledge (data s)) ''split pdf''
   \<and> snd (get_response t2 ''split pdf''
          (fst (get_response t1 ''Ali learn 'pdf split' means divide PDF into multiple files''
                  (AliChatbot n Missing w t0 em)))) =
       Inr ''Split a PDF into multiple smaller PDF files by page ranges. If you'd like, I can guide you step-by-step.''
   \<and> snd (get_response t2 ''what is pdf_split''
          (fst (get_response t1 ''Ali learn 'pdf split' means divide PDF into multiple files''
                  (AliChatbot n Missing w t0 em)))) =
       Inr ''Pdf split: divide PDF into multiple files''"
  by (simp add: teach_knowledge_base split_pdf_help fresh_split_pdf fresh_what_is_pdf_split)

text \<open>On a chatbot constructed with no durable record, the reply to \<open>split pdf\<close> after
  the teaching command does not contain the explanation taught.\<close>

theorem taught_explanation_not_surfaced_counterexample:
  "snd (get_response ''2024-01-01 10:01:00'' ''split pdf''
          (fst (get_response ''2024-01-01 10:00:00''
                  ''Ali learn 'pdf split' means divide PDF into multiple files''
                  (AliChatbot 20 Missing True ''2024-01-01T09:00:00'' None)))) =
     Inr ''Split a PDF into multiple smaller PDF files by page ranges. If you'd like, I can guide you step-by-step.''
   \<and> \<not> contains ''divide PDF into multiple files''
         ''Split a PDF into multiple smaller PDF files by page ranges. If you'd like, I can guide you step-by-step.''"
  using fresh_split_pdf taught_not_in_seeded by blast

section \<open>What the extractors leave alone\<close>

lemma data_store_conversations [simp]: "conversations (data_store k v d) = conversations d"
  by (simp add: data_store_def)




section \<open>Every return of the dispatcher logs the exchange\<close>






lemma strip_Nil [simp]: "strip [] = []"
  by (simp add: strip_def rstrip_def)


section \<open>The dispatcher returns when the log is well shaped\<close>









section \<open>Telling a name and asking for it\<close>

lemma star_greedy_all:
  "list_all P xs \<Longrightarrow>
   \<exists>more. star_greedy P p xs = (if xs = [] then p else Some (last xs), []) # more"
proof (induction xs arbitrary: p)
  case Nil
  then show ?case by simp
next
  case (Cons c xs)
  then obtain more where
    "star_greedy P (Some c) xs = (if xs = [] then Some c else Some (last xs), []) # more"
    by fastforce
  with Cons.prems show ?case by (cases "xs = []") simp_all
qed

lemma plus_greedy_all:
  "list_all P xs \<Longrightarrow> xs \<noteq> [] \<Longrightarrow>
   \<exists>more. plus_greedy P p xs = (Some (last xs), []) # more"
proof -
  assume all: "list_all P xs" and ne: "xs \<noteq> []"
  then obtain c cs where xs: "xs = c # cs" by (cases xs) auto
  with all have "list_all P cs" "P c" by simp_all
  from star_greedy_all [OF this(1), of "Some c"] obtain more where
    "star_greedy P (Some c) cs = (if cs = [] then Some c else Some (last cs), []) # more"
    by blast
  with xs \<open>P c\<close> show ?thesis by (cases "cs = []") (simp_all add: plus_greedy_def)
qed

lemma strip_id:
  "s \<noteq> [] \<Longrightarrow> \<not> is_space (hd s) \<Longrightarrow> \<not> is_space (last s) \<Longrightarrow> strip s = s"
proof -
  assume ne: "s \<noteq> []" and h: "\<not> is_space (hd s)" and l: "\<not> is_space (last s)"
  from ne h have "dropWhile is_space s = s" by (cases s) simp_all
  moreover from ne l have "dropWhile is_space (rev s) = rev s"
    by (cases "rev s") (simp_all add: last_rev [symmetric] hd_rev)
  ultimately show ?thesis by (simp add: strip_def rstrip_def)
qed

lemma rstrip_chars_id: "s \<noteq> [] \<Longrightarrow> last s \<notin> set cs \<Longrightarrow> rstrip_chars cs s = s"
proof -
  assume ne: "s \<noteq> []" and l: "last s \<notin> set cs"
  then have "dropWhile (\<lambda>c. c \<in> set cs) (rev s) = rev s"
    by (cases "rev s") (simp_all add: hd_rev)
  then show ?thesis by (simp add: rstrip_chars_def)
qed

lemma length_title_from [simp]: "length (title_from b s) = length s"
  by (induction b s rule: title_from.induct) simp_all

lemma title_empty [simp]: "(title s = []) = (s = [])"
  using length_title_from [of False s] unfolding title_def by (metis length_0_conv)

lemma contains_here: "contains x (x @ b)"
proof (cases "x @ b")
  case Nil
  then show ?thesis by (simp add: contains.simps)
next
  case (Cons c cs)
  have "prefix x (x @ b)" by simp
  with Cons show ?thesis by (simp add: contains.simps)
qed

lemma contains_middle: "contains x (a @ x @ b)"
  by (induction a) (simp_all add: contains_here contains.simps)

text \<open>The characters of a name: letters, spaces, apostrophes and hyphens.\<close>

lemma name_char_classes:
  assumes "is_alpha c \<or> c = CHR '' '' \<or> c = CHR 0x27 \<or> c = CHR ''-''"
  shows "cls_ok True name_chars c" and "is_space c = (c = CHR '' '')" and "c \<notin> set ''.!?''"
proof -
  show "cls_ok True name_chars c"
    using assms by (auto simp: cls_ok_def name_chars_def is_space_def)
  show "is_space c = (c = CHR '' '')"
    using assms letter_not_space [of c] by (auto simp: is_space_def)
  show "c \<notin> set ''.!?''"
    using assms
    by (auto simp: is_alpha_def is_upper_def is_lower_def upper_letters_def lower_letters_def)
qed

lemma my_name_is_literal:
  "lit_match True ''my name is'' None (''My name is '' @ name) = Some (Some CHR ''s'', '' '' @ name)"
proof -
  have "map lower_char ''my name is'' = map lower_char ''My name is''"
    by (simp add: lower_char_def upper_letters_def lower_letters_def)
  from lit_match_prefix [OF this, of None "'' '' @ name"] show ?thesis by simp
qed

lemma my_name_is_search:
  assumes ne: "name \<noteq> []"
    and chars: "list_all (\<lambda>c. is_alpha c \<or> c = CHR '' '' \<or> c = CHR 0x27 \<or> c = CHR ''-'') name"
    and first_char: "hd name \<noteq> CHR '' ''"
  shows "first_search patterns (''My name is '' @ name) = Some (''user_name'', [(1, name)])"
proof -
  from ne obtain c cs where name: "name = c # cs" by (cases name) auto
  have c: "\<not> is_space c"
    using chars first_char name name_char_classes(2) [of c] by simp
  have "list_all (cls_ok True name_chars) name"
    using chars name_char_classes(1) by (simp add: list_all_iff)
  from plus_greedy_all [OF this ne, of "Some CHR '' ''"] obtain more where
    plus: "plus_greedy (cls_ok True name_chars) (Some CHR '' '') name = (Some (last name), []) # more"
    by blast
  have word: "at_boundary None (''My name is '' @ name)"
    by (simp add: at_boundary_def word_before_def word_after_def is_word_def is_alpha_def
                  is_upper_def upper_letters_def)
  have space: "plus_greedy (cls_ok True is_space) (Some CHR ''s'') ('' '' @ name) =
                 [(Some CHR '' '', name)]"
    using c name by (simp add: plus_greedy_def is_space_def)
  have "\<exists>more. run True (phrase_pattern ''my name is'' name_chars) (None, ''My name is '' @ name, []) =
          (Some (last name), [], [(1, name)]) # more"
    unfolding phrase_pattern_def
    using word my_name_is_literal [of name] space plus
    by (simp del: append.simps One_nat_def)
  then obtain more where
    "run True (phrase_pattern ''my name is'' name_chars) (None, ''My name is '' @ name, []) =
          (Some (last name), [], [(1, name)]) # more"
    by blast
  then have "re_search True (phrase_pattern ''my name is'' name_chars) (''My name is '' @ name) =
          Some [(1, name)]"
    by (simp add: re_search_def del: One_nat_def)
  then show ?thesis
    by (simp add: patterns_def del: One_nat_def)
qed

lemma user_name_shown: "replace_char CHR ''_'' CHR '' '' ''user_name'' = ''user name''"
  by code_simp

lemma my_name_is_response:
  assumes ne: "name \<noteq> []"
    and chars: "list_all (\<lambda>c. is_alpha c \<or> c = CHR '' '' \<or> c = CHR 0x27 \<or> c = CHR ''-'') name"
    and first_char: "hd name \<noteq> CHR '' ''"
    and final_char: "last name \<noteq> CHR '' ''"
  shows "get_response now (''My name is '' @ name) s =
           log_return now (''My name is '' @ name)
             (''Nice to meet you, '' @ title name @ ''! '' @ utf8 0x1F4AB @ '' I'' @ [CHR 0x27] @
              ''ll remember your name.'')
             (save_memory (s\<lparr>data := data_store ''user_name'' (title name) (data s)\<rparr>))"
proof -
  let ?line = "''My name is '' @ name"
  have lastc: "is_alpha (last name) \<or> last name = CHR '' '' \<or> last name = CHR 0x27 \<or> last name = CHR ''-''"
    using chars ne by (simp add: list_all_iff)
  have firstc: "is_alpha (hd name) \<or> hd name = CHR '' '' \<or> hd name = CHR 0x27 \<or> hd name = CHR ''-''"
    using chars ne by (simp add: list_all_iff)
  have l: "\<not> is_space (last name)" using name_char_classes(2) [OF lastc] final_char by simp
  have h: "\<not> is_space (hd name)" using name_char_classes(2) [OF firstc] first_char by simp
  have "last ?line = last name" using ne by simp
  with l have stripped: "strip ?line = ?line"
    by (intro strip_id) (simp_all add: is_space_def)
  have cap: "captured [(1, name)] 1 = name"
    using strip_id [OF ne h l] rstrip_chars_id [OF ne name_char_classes(3) [OF lastc]]
    by (simp add: captured_def)
  have "learn_structured_fact ?line s =
          (save_memory (s\<lparr>data := data_store ''user_name'' (title name) (data s)\<rparr>),
           Some (structured_reply ''user_name'' (title name)))"
    using my_name_is_search [OF ne chars first_char] cap
    by (simp add: learn_structured_fact_def Let_def del: One_nat_def append.simps)
  moreover have "structured_reply ''user_name'' (title name) =
      ''Nice to meet you, '' @ title name @ ''! '' @ utf8 0x1F4AB @ '' I'' @ [CHR 0x27] @
              ''ll remember your name.''"
    by (simp add: structured_reply_def)
  ultimately show ?thesis
    using stripped by (simp add: get_response_def Let_def del: append.simps)
qed

lemma same_relationships:
  "relationships (data s') = relationships (data s) \<Longrightarrow>
   answer_relationship_query q s' = answer_relationship_query q s"
  by (simp add: answer_relationship_query_def)

lemma same_facts:
  "facts (data s') = facts (data s) \<Longrightarrow>
   flexipdf_knowledge (data s') = flexipdf_knowledge (data s) \<Longrightarrow>
   answer_fact_query q s' = answer_fact_query q s"
  by (simp add: answer_fact_query_def Let_def cong: option.case_cong)

lemma what_name_strip: "strip ''What is my name?'' = ''What is my name?''"
  by code_simp

lemma what_name_lower: "lower ''What is my name?'' = ''what is my name?''"
  by code_simp

lemma what_name_patterns: "first_search patterns ''What is my name?'' = None"
  by code_simp

lemma what_name_rel_patterns: "first_search rel_patterns ''What is my name?'' = None"
  by code_simp

lemma what_name_learn: "re_search True learn_pattern ''What is my name?'' = None"
  by code_simp

lemma what_name_teach: "re_search True teach_pattern ''What is my name?'' = None"
  by code_simp

lemma what_name_guard: "re_match True question_guard ''What is my name?'' = Some [(Suc 0, ''What'')]"
  by code_simp

lemma what_name_q_map:
  "filter (\<lambda>pk. contains (fst pk) ''what is my name?'') q_map = [(''my name'', ''user_name'')]"
  by code_simp

lemma what_name_contains: "contains ''my name'' ''what is my name?''"
  by code_simp

lemma who_am_i_strip: "strip ''who am i'' = ''who am i''"
  by code_simp

lemma who_am_i_lower: "lower ''who am i'' = ''who am i''"
  by code_simp

lemma who_am_i_patterns: "first_search patterns ''who am i'' = None"
  by code_simp

lemma who_am_i_rel_patterns: "first_search rel_patterns ''who am i'' = None"
  by code_simp

lemma who_am_i_learn: "re_search True learn_pattern ''who am i'' = None"
  by code_simp

lemma who_am_i_teach: "re_search True teach_pattern ''who am i'' = None"
  by code_simp

lemma who_am_i_guard: "re_match True question_guard ''who am i'' = Some [(Suc 0, ''who'')]"
  by code_simp

lemma who_am_i_q_map:
  "filter (\<lambda>pk. contains (fst pk) ''who am i'') q_map = [(''who am i'', ''user_name'')]"
  by code_simp

lemma who_am_i_contains: "contains ''who am i'' ''who am i''"
  by code_simp

lemma personal_known_user_name:
  "personal_known ''user_name'' v = ''Your user name is '' @ v @ '' '' @ utf8 0x1F31F"
  by (simp add: personal_known_def user_name_shown)

lemma what_name_response:
  assumes "answer_relationship_query ''What is my name?'' s = None"
    and "answer_fact_query ''What is my name?'' s = None"
    and "user_name (data s) = Some v" and "v \<noteq> []"
  shows "get_response now ''What is my name?'' s =
           log_return now ''What is my name?'' (''Your user name is '' @ v @ '' '' @ utf8 0x1F31F) s"
proof -
  have "personal_scan q_map (data s) ''what is my name?'' =
          personal_scan [(''my name'', ''user_name'')] (data s) ''what is my name?''"
    by (simp only: personal_scan_filter [of q_map] what_name_q_map)
  then have "answer_personal_query ''What is my name?'' s = Some (personal_known ''user_name'' v)"
    using assms(3,4)
    by (simp add: answer_personal_query_def what_name_lower what_name_contains data_scalar_def)
  then show ?thesis
    using assms(1,2)
    by (simp add: get_response_def what_name_strip learn_structured_fact_def what_name_patterns
                  what_name_rel_patterns learn_flexipdf_knowledge_def what_name_learn
                  what_name_teach learn_fact_statement_def what_name_guard answer_queries_def
                  personal_known_user_name Let_def)
qed

lemma who_am_i_response:
  assumes "answer_relationship_query ''who am i'' s = None"
    and "answer_fact_query ''who am i'' s = None"
    and "user_name (data s) = Some v" and "v \<noteq> []"
  shows "get_response now ''who am i'' s =
           log_return now ''who am i'' (''Your user name is '' @ v @ '' '' @ utf8 0x1F31F) s"
proof -
  have "personal_scan q_map (data s) ''who am i'' =
          personal_scan [(''who am i'', ''user_name'')] (data s) ''who am i''"
    by (simp only: personal_scan_filter [of q_map] who_am_i_q_map)
  then have "answer_personal_query ''who am i'' s = Some (personal_known ''user_name'' v)"
    using assms(3,4)
    by (simp add: answer_personal_query_def who_am_i_lower who_am_i_contains data_scalar_def)
  then show ?thesis
    using assms(1,2)
    by (simp add: get_response_def who_am_i_strip learn_structured_fact_def who_am_i_patterns
                  who_am_i_rel_patterns learn_flexipdf_knowledge_def who_am_i_learn
                  who_am_i_teach learn_fact_statement_def who_am_i_guard answer_queries_def
                  personal_known_user_name Let_def)
qed

text \<open>
  Claim C3. Take a name: a string of letters, spaces, apostrophes and hyphens that
  is not empty and neither starts nor ends with a space. In a state whose log holds
  well-shaped entries and in which no relationship and no fact answers the query,
  \<open>get_response\<close> on \<open>My name is\<close> and the name greets the user by the name
  title-cased, and \<open>What is my name?\<close> or \<open>who am i\<close> after it returns \<open>Your user name
  is\<close>, the name title-cased and the star sign, a reply that contains the name
  title-cased.
\<close>

theorem name_is_remembered:
  assumes "name \<noteq> []"
    and "list_all (\<lambda>c. is_alpha c \<or> c = CHR '' '' \<or> c = CHR 0x27 \<or> c = CHR ''-'') name"
    and "hd name \<noteq> CHR '' ''"
    and "last name \<noteq> CHR '' ''"
    and "q \<in> set [''What is my name?'', ''who am i'']"
    and "answer_relationship_query q s = None"
    and "answer_fact_query q s = None"
    and "list_all entry_ok (conversations (data s))"
  shows "snd (get_response t1 (''My name is '' @ name) s) =
           Inr (''Nice to meet you, '' @ title name @ ''! '' @ utf8 0x1F4AB @ '' I'' @ [CHR 0x27] @
                ''ll remember your name.'')
       \<and> snd (get_response t2 q (fst (get_response t1 (''My name is '' @ name) s))) =
           Inr (''Your user name is '' @ title name @ '' '' @ utf8 0x1F31F)
       \<and> contains (title name) (''Your user name is '' @ title name @ '' '' @ utf8 0x1F31F)"
proof -
  let ?told = "''My name is '' @ name"
  let ?s1 = "fst (get_response t1 ?told s)"
  note told = my_name_is_response [OF assms(1-4), of t1 s]
  have reply1: "snd (get_response t1 ?told s) =
           Inr (''Nice to meet you, '' @ title name @ ''! '' @ utf8 0x1F4AB @ '' I'' @ [CHR 0x27] @
                ''ll remember your name.'')"
    using assms(8) by (simp only: told) (simp add: log_return_ok)
  have d1: "data ?s1 =
      (data_store ''user_name'' (title name) (data s))
        \<lparr>conversations := conversations (data s) @
           [entry_json \<lparr> user = ?told,
                         ai = ''Nice to meet you, '' @ title name @ ''! '' @ utf8 0x1F4AB @ '' I'' @
                              [CHR 0x27] @ ''ll remember your name.'',
                         time = t1 \<rparr>]\<rparr>"
    by (simp only: told) (simp add: log_return_data)
  have name1: "user_name (data ?s1) = Some (title name)"
    by (simp only: d1) (simp add: data_store_def)
  have ne1: "title name \<noteq> []" using assms(1) by simp
  have rel1: "answer_relationship_query q ?s1 = None"
    using assms(6) same_relationships [of ?s1 s q] by (simp only: d1) (simp add: data_store_def)
  have fact1: "answer_fact_query q ?s1 = None"
    using assms(7) same_facts [of ?s1 s q] by (simp only: d1) (simp add: data_store_def)
  have ok1: "list_all entry_ok (conversations (data ?s1))"
    using assms(8) by (simp only: d1) simp
  have "get_response t2 q ?s1 =
          log_return t2 q (''Your user name is '' @ title name @ '' '' @ utf8 0x1F31F) ?s1"
    using assms(5) rel1 fact1 name1 ne1
          what_name_response [of ?s1 "title name" t2] who_am_i_response [of ?s1 "title name" t2]
    by auto
  then have reply2: "snd (get_response t2 q ?s1) =
           Inr (''Your user name is '' @ title name @ '' '' @ utf8 0x1F31F)"
    using log_return_ok [OF ok1] by simp
  have "contains (title name) (''Your user name is '' @ title name @ '' '' @ utf8 0x1F31F)"
    by (rule contains_middle)
  with reply1 reply2 show ?thesis by blast
qed

lemma what_name_who: "re_search True who_pattern ''What is my name?'' = None"
  by code_simp

theorem name_is_remembered_witness:
  "''ali khan'' \<noteq> []
   \<and> list_all (\<lambda>c. is_alpha c \<or> c = CHR '' '' \<or> c = CHR 0x27 \<or> c = CHR ''-'') ''ali khan''
   \<and> hd ''ali khan'' \<noteq> CHR '' '' \<and> last ''ali khan'' \<noteq> CHR '' ''
   \<and> ''What is my name?'' \<in> set [''What is my name?'', ''who am i'']
   \<and> answer_relationship_query ''What is my name?''
        \<lparr> data = default_data, ctx = [], maxlen = 20, embedding_model = None,
          faiss_index = None, disk = Missing, writable = True \<rparr> = None
   \<and> answer_fact_query ''What is my name?''
        \<lparr> data = default_data, ctx = [], maxlen = 20, embedding_model = None,
          faiss_index = None, disk = Missing, writable = True \<rparr> = None
   \<and> list_all entry_ok (conversations (data
        \<lparr> data = default_data, ctx = [], maxlen = 20, embedding_model = None,
          faiss_index = None, disk = Missing, writable = True \<rparr>))
   \<and> title ''ali khan'' = ''Ali Khan''
   \<and> snd (get_response ''2024-01-01 10:01:00'' ''What is my name?''
          (fst (get_response ''2024-01-01 10:00:00'' (''My name is '' @ ''ali khan'')
                  \<lparr> data = default_data, ctx = [], maxlen = 20, embedding_model = None,
                    faiss_index = None, disk = Missing, writable = True \<rparr>))) =
       Inr (''Your user name is '' @ title ''ali khan'' @ '' '' @ utf8 0x1F31F)"
proof -
  let ?s = "\<lparr> data = default_data, ctx = [], maxlen = 20, embedding_model = None,
             faiss_index = None, disk = Missing, writable = True \<rparr>"
  have h1: "''ali khan'' \<noteq> []" by simp
  have h2: "list_all (\<lambda>c. is_alpha c \<or> c = CHR '' '' \<or> c = CHR 0x27 \<or> c = CHR ''-'') ''ali khan''"
    by code_simp
  have h3: "hd ''ali khan'' \<noteq> CHR '' ''" by simp
  have h4: "last ''ali khan'' \<noteq> CHR '' ''" by simp
  have h5: "''What is my name?'' \<in> set [''What is my name?'', ''who am i'']" by simp
  have h6: "answer_relationship_query ''What is my name?'' ?s = None"
    by (rule no_relationships_no_answer) (simp_all add: default_data_def what_name_who)
  have h7: "answer_fact_query ''What is my name?'' ?s = None"
    by (simp add: answer_fact_query_def default_data_def Let_def split: option.splits)
  have h8: "list_all entry_ok (conversations (data ?s))" by (simp add: default_data_def)
  have t: "title ''ali khan'' = ''Ali Khan''" by code_simp
  show ?thesis
    using h1 h2 h3 h4 h5 h6 h7 h8 t
          name_is_remembered [OF h1 h2 h3 h4 h5 h6 h7 h8,
            of "''2024-01-01 10:00:00''" "''2024-01-01 10:01:00''"]
    by blast
qed

end
